theory Spec2Isabelle
  imports Complex_Main
begin

section \<open>The batched navigation environment of \<^verbatim>\<open>map_nav_src/r2r/env.py\<close>\<close>

text \<open>
  The development embeds the class \<^verbatim>\<open>R2RNavBatch\<close> (and the small wrapper
  \<^verbatim>\<open>EnvBatch\<close> it drives) as HOL functions. Conventions:
  \<^item> a Python method \<^verbatim>\<open>_name\<close> is the constant \<open>name\<close> (an Isabelle identifier cannot
    start with an underscore);
  \<^item> Python floats are modelled as \<open>real\<close>, Python ints as \<open>int\<close>;
  \<^item> every exception the source can raise is a value \<open>Inl e\<close> of the result type;
  \<^item> an attribute of \<^verbatim>\<open>self\<close> that \<^verbatim>\<open>__init__\<close> assigns only on some paths (or never)
    is an \<open>option\<close> field: \<open>None\<close> is "not assigned", and reading it raises
    \<^verbatim>\<open>AttributeError\<close>.
\<close>

subsection \<open>Exceptions and Python primitives\<close>

datatype error =
    AttributeError string
  | NameError string
  | KeyError string
  | IndexError
  | AssertionError string
  | ZeroDivisionError
  | External error

definition and_then :: "error + 'a \<Rightarrow> ('a \<Rightarrow> error + 'b) \<Rightarrow> error + 'b" where
  "and_then m f = (case m of Inl e \<Rightarrow> Inl e | Inr x \<Rightarrow> f x)"

text \<open>
  An exception that leaves a call into a module outside this file is kept apart from the
  exceptions this file raises itself: it is wrapped in \<open>External\<close>.
\<close>

definition external :: "error + 'a \<Rightarrow> error + 'a" where
  "external m = (case m of Inl e \<Rightarrow> Inl (External e) | Inr x \<Rightarrow> Inr x)"

text \<open>A list comprehension whose element expression may raise: the first exception wins.\<close>

fun sequence :: "(error + 'a) list \<Rightarrow> error + 'a list" where
  "sequence [] = Inr []"
| "sequence (m # ms) =
     (case m of Inl e \<Rightarrow> Inl e
      | Inr x \<Rightarrow> (case sequence ms of Inl e \<Rightarrow> Inl e | Inr xs \<Rightarrow> Inr (x # xs)))"

text \<open>\<^verbatim>\<open>xs[i]\<close>: a negative index counts from the end, out of range raises.\<close>

definition py_index :: "'a list \<Rightarrow> int \<Rightarrow> error + 'a" where
  "py_index xs i =
     (if 0 \<le> i \<and> i < int (length xs) then Inr (xs ! nat i)
      else if i < 0 \<and> - int (length xs) \<le> i then Inr (xs ! nat (int (length xs) + i))
      else Inl IndexError)"

text \<open>\<^verbatim>\<open>xs[start:stop]\<close> with step 1; \<open>None\<close> is an omitted bound. Bounds are clamped.\<close>

definition slice_bound :: "int \<Rightarrow> int \<Rightarrow> int" where
  "slice_bound n i = (if i < 0 then max 0 (n + i) else min n i)"

definition py_slice :: "'a list \<Rightarrow> int option \<Rightarrow> int option \<Rightarrow> 'a list" where
  "py_slice xs start stop =
     (let n = int (length xs);
          a = (case start of None \<Rightarrow> 0 | Some i \<Rightarrow> slice_bound n i);
          b = (case stop of None \<Rightarrow> n | Some i \<Rightarrow> slice_bound n i)
      in take (nat (b - a)) (drop (nat a) xs))"

text \<open>\<^verbatim>\<open>float(b)\<close> of a Boolean.\<close>

definition py_float :: "bool \<Rightarrow> real" where
  "py_float b = (if b then 1 else 0)"

text \<open>\<^verbatim>\<open>d[k]\<close> on a dictionary with string keys.\<close>

definition getitem :: "(string \<rightharpoonup> 'v) \<Rightarrow> string \<Rightarrow> error + 'v" where
  "getitem d k = (case d k of None \<Rightarrow> Inl (KeyError k) | Some v \<Rightarrow> Inr v)"

definition ERROR_MARGIN :: real where
  "ERROR_MARGIN = 3"

subsection \<open>Shortest-distance tables and the nearest point of a path\<close>

type_synonym vp = string

text \<open>One scan's table \<^verbatim>\<open>shortest_distances[scan]\<close>: a dictionary of dictionaries.\<close>

type_synonym dist_table = "vp \<rightharpoonup> (vp \<rightharpoonup> real)"

text \<open>\<^verbatim>\<open>shortest_distances[a][b]\<close>.\<close>

definition dist :: "dist_table \<Rightarrow> vp \<Rightarrow> vp \<Rightarrow> error + real" where
  "dist D a b = and_then (getitem D a) (\<lambda>row. getitem row b)"

text \<open>The \<^verbatim>\<open>for item in path\<close> loop of \<^verbatim>\<open>_get_nearest\<close>, with its two loop variables.\<close>

fun nearest_loop :: "dist_table \<Rightarrow> vp \<Rightarrow> vp list \<Rightarrow> vp \<Rightarrow> real \<Rightarrow> error + vp" where
  "nearest_loop D goal_id [] near_id near_d = Inr near_id"
| "nearest_loop D goal_id (item # rest) near_id near_d =
     (case dist D item goal_id of
        Inl e \<Rightarrow> Inl e
      | Inr d \<Rightarrow>
          if d < near_d then nearest_loop D goal_id rest item d
          else nearest_loop D goal_id rest near_id near_d)"

definition get_nearest :: "dist_table \<Rightarrow> vp \<Rightarrow> vp list \<Rightarrow> error + vp" where
  "get_nearest D goal_id path =
     and_then (py_index path 0) (\<lambda>near_id.
     and_then (dist D near_id goal_id) (\<lambda>near_d.
     nearest_loop D goal_id path near_id near_d))"

text \<open>\<^verbatim>\<open>np.sum([D[a][b] for a, b in zip(path[:-1], path[1:])])\<close>.\<close>

definition path_length :: "dist_table \<Rightarrow> vp list \<Rightarrow> error + real" where
  "path_length D path =
     and_then (sequence (map (\<lambda>(a, b). dist D a b) (zip (butlast path) (tl path))))
       (\<lambda>ds. Inr (sum_list ds))"

subsection \<open>Data: episode records, scores, the object's attributes\<close>

text \<open>
  One item of \<^verbatim>\<open>instr_data\<close>: a dictionary with the keys the class reads. \<^verbatim>\<open>objId\<close> and
  \<^verbatim>\<open>path_id\<close> are read with \<^verbatim>\<open>.get\<close>, so they may be absent (\<open>None\<close>). Object identifiers
  are taken to be strings.
\<close>

record episode =
  ep_instr_id :: string
  ep_scan :: string
  ep_path :: "vp list"
  ep_heading :: real
  ep_instruction :: string
  ep_objId :: "string option"
  ep_path_id :: "int option"

text \<open>The dictionary \<^verbatim>\<open>scores\<close> that \<^verbatim>\<open>_eval_item\<close> returns, one field per key.\<close>

record scores =
  nav_error :: real
  oracle_error :: real
  action_steps :: int
  trajectory_steps :: int
  trajectory_lengths :: real
  success :: real
  oracle_success :: real
  spl :: real
  nDTW :: real
  SDTW :: real
  CLS :: real

text \<open>
  \<^verbatim>\<open>cal_dtw\<close> and \<^verbatim>\<open>cal_cls\<close> are imported from \<^verbatim>\<open>r2r.eval_utils\<close>, which is not part of
  the sources at hand: they are parameters. \<^verbatim>\<open>cal_dtw\<close> yields the entries merged into
  \<^verbatim>\<open>scores\<close>, of which \<^verbatim>\<open>eval_metrics\<close> reads \<^verbatim>\<open>nDTW\<close> and \<^verbatim>\<open>SDTW\<close>; its keys are taken
  to be new ones. Both may raise; \<^verbatim>\<open>_eval_item\<close> lets their exceptions through.
\<close>

record eval_utils =
  cal_dtw :: "dist_table \<Rightarrow> vp list \<Rightarrow> vp list \<Rightarrow> real \<Rightarrow> real \<Rightarrow> error + real \<times> real"
  cal_cls :: "dist_table \<Rightarrow> vp list \<Rightarrow> vp list \<Rightarrow> real \<Rightarrow> error + real"

text \<open>
  One value of the candidate dictionary:
  \<^verbatim>\<open>[pointId, featureId, distance, heading, elevation, position]\<close>.
\<close>

record cand_entry =
  ce_pointId :: int
  ce_featureId :: int
  ce_distance :: real
  ce_heading :: real
  ce_elevation :: real
  ce_position :: "real list"

text \<open>
  The attributes of an \<^verbatim>\<open>R2RNavBatch\<close> object. \<open>env\<close> is the list \<^verbatim>\<open>self.env.sims\<close>; \<open>rng\<close> is
  the state of Python's global random generator, which \<^verbatim>\<open>random.shuffle\<close> advances.
  The inner dictionaries of \<open>candidates_dict\<close> are kept as association lists, in the
  order \<^verbatim>\<open>.items()\<close> yields them.
\<close>

record ('sim, 'g) nav_batch =
  env :: "'sim list"
  data :: "episode list"
  scans :: "string set"
  connectivity_dir :: string
  batch_size :: int
  angle_feat_size :: int
  name :: "string option"
  real_world :: bool
  server_path :: "string option"
  gt_trajs :: "(string \<rightharpoonup> string \<times> vp list \<times> string option) option"
  seed :: "int option"
  ix :: "int option"
  shortest_paths :: "(string \<rightharpoonup> (vp \<rightharpoonup> (vp \<rightharpoonup> vp list))) option"
  shortest_distances :: "(string \<rightharpoonup> dist_table) option"
  candidates_dict :: "(string \<rightharpoonup> (vp \<times> cand_entry) list) option"
  batch :: "episode list option"
  obj2vps :: "(string \<rightharpoonup> vp list) option option"
  rng :: 'g

text \<open>Reading an attribute that may not have been assigned.\<close>

definition getattr :: "string \<Rightarrow> 'a option \<Rightarrow> error + 'a" where
  "getattr attr v = (case v of None \<Rightarrow> Inl (AttributeError attr) | Some x \<Rightarrow> Inr x)"

subsection \<open>Scoring one trajectory: \<^verbatim>\<open>_eval_item\<close>\<close>

text \<open>\<^verbatim>\<open>str(gt_objid)\<close>: the identifier itself, or \<^verbatim>\<open>'None'\<close>.\<close>

definition py_str :: "string option \<Rightarrow> string" where
  "py_str x = (case x of None \<Rightarrow> ''None'' | Some s \<Rightarrow> s)"

text \<open>
  The two success policies (the \<^verbatim>\<open>if self.obj2vps is None\<close> statement): the pair
  \<open>(success, oracle_success)\<close>.
\<close>

definition success_policy ::
  "(string \<rightharpoonup> vp list) option \<Rightarrow> string \<Rightarrow> string option \<Rightarrow> vp \<Rightarrow> vp list \<Rightarrow> real \<Rightarrow> real
     \<Rightarrow> error + real \<times> real" where
  "success_policy o2v scan_id gt_objid final path_flat nav_err oracle_err =
     (case o2v of
        None \<Rightarrow>
          Inr (py_float (nav_err < ERROR_MARGIN), py_float (oracle_err < ERROR_MARGIN))
      | Some tbl \<Rightarrow>
          and_then (getitem tbl (scan_id @ ''_'' @ py_str gt_objid)) (\<lambda>vps.
            let goal_viewpoints = set vps in
            if \<not> 0 < card goal_viewpoints
            then Inl (AssertionError (scan_id @ ''_'' @ py_str gt_objid))
            else Inr (py_float (final \<in> goal_viewpoints),
                      py_float (\<exists>x \<in> set path_flat. x \<in> goal_viewpoints))))"

definition eval_item ::
  "eval_utils \<Rightarrow> ('sim, 'g) nav_batch \<Rightarrow> string \<Rightarrow> vp list list \<Rightarrow> vp list \<Rightarrow> string option
     \<Rightarrow> error + scores" where
  "eval_item U self scan_id pred_path gt_path gt_objid =
     and_then (getattr ''shortest_distances'' (shortest_distances self)) (\<lambda>all_distances.
     and_then (getitem all_distances scan_id) (\<lambda>D.
     let path_flat = concat pred_path in
     and_then (py_index gt_path 0) (\<lambda>gt_start.
     and_then (py_index path_flat 0) (\<lambda>start.
     if gt_start \<noteq> start
     then Inl (AssertionError ''Result trajectories should include the start position'')
     else
     and_then (py_index gt_path (- 1)) (\<lambda>goal.
     and_then (get_nearest D goal path_flat) (\<lambda>nearest_position.
     and_then (py_index path_flat (- 1)) (\<lambda>final.
     and_then (dist D final goal) (\<lambda>nav_err.
     and_then (dist D nearest_position goal) (\<lambda>oracle_err.
     and_then (path_length D path_flat) (\<lambda>traj_len.
     and_then (path_length D gt_path) (\<lambda>gt_lengths.
     and_then (getattr ''obj2vps'' (obj2vps self)) (\<lambda>o2v.
     and_then (success_policy o2v scan_id gt_objid final path_flat nav_err oracle_err)
       (\<lambda>(succ, oracle_succ).
     let spl_value = succ * gt_lengths / max (max traj_len gt_lengths) (1 / 100) in
     and_then (external (cal_dtw U D path_flat gt_path succ ERROR_MARGIN)) (\<lambda>(ndtw, sdtw).
     and_then (external (cal_cls U D path_flat gt_path ERROR_MARGIN)) (\<lambda>cls.
     Inr \<lparr> nav_error = nav_err, oracle_error = oracle_err,
           action_steps = int (length pred_path) - 1,
           trajectory_steps = int (length path_flat) - 1,
           trajectory_lengths = traj_len,
           success = succ, oracle_success = oracle_succ,
           spl = spl_value, nDTW = ndtw, SDTW = sdtw, CLS = cls \<rparr>)))))))))))))))"

subsection \<open>The simulator wrapper \<^verbatim>\<open>EnvBatch\<close>\<close>

text \<open>
  The state \<^verbatim>\<open>MatterSim\<close> reports for one simulator: the fields \<^verbatim>\<open>_get_obs\<close> reads
  (\<^verbatim>\<open>state.location\<close> is flattened; navigable locations are kept by viewpoint identifier).
\<close>

record sim_state =
  st_scanId :: string
  st_viewpointId :: vp
  st_x :: real
  st_y :: real
  st_z :: real
  st_viewIndex :: int
  st_heading :: real
  st_elevation :: real
  st_navigableLocations :: "vp list"

text \<open>
  \<^verbatim>\<open>MatterSim\<close> and the feature database \<^verbatim>\<open>view_db\<close> are external: they are parameters,
  and their calls are taken not to raise. \<open>new_sim\<close> is a simulator as \<^verbatim>\<open>EnvBatch.__init__\<close>
  configures and initialises it.
\<close>

record ('sim, 'f) matter_sim =
  new_sim :: 'sim
  newEpisode :: "'sim \<Rightarrow> string \<Rightarrow> vp \<Rightarrow> real \<Rightarrow> 'sim"
  getState :: "'sim \<Rightarrow> sim_state"
  makeAction :: "'sim \<Rightarrow> int \<Rightarrow> real \<Rightarrow> real \<Rightarrow> 'sim"
  get_image_feature :: "string \<Rightarrow> vp \<Rightarrow> 'f list"

text \<open>
  \<^verbatim>\<open>newEpisodes\<close> and \<^verbatim>\<open>makeActions\<close> walk their arguments by position and index
  \<^verbatim>\<open>self.sims[i]\<close>: with more arguments than simulators the loop raises \<^verbatim>\<open>IndexError\<close>
  after it has driven every simulator. The result is the exception, if any, and the
  simulators as the loop leaves them.
\<close>

fun newEpisodes ::
  "('sim, 'f) matter_sim \<Rightarrow> 'sim list \<Rightarrow> (string \<times> vp \<times> real) list \<Rightarrow> error option \<times> 'sim list" where
  "newEpisodes M sims [] = (None, sims)"
| "newEpisodes M [] (e # es) = (Some IndexError, [])"
| "newEpisodes M (sim # sims) ((scanId, viewpointId, hd0) # es) =
     (let (r, sims') = newEpisodes M sims es
      in (r, newEpisode M sim scanId viewpointId hd0 # sims'))"

fun makeActions ::
  "('sim, 'f) matter_sim \<Rightarrow> 'sim list \<Rightarrow> (int \<times> real \<times> real) list \<Rightarrow> error option \<times> 'sim list" where
  "makeActions M sims [] = (None, sims)"
| "makeActions M [] (a # as) = (Some IndexError, [])"
| "makeActions M (sim # sims) ((index, hd0, el0) # as) =
     (let (r, sims') = makeActions M sims as
      in (r, makeAction M sim index hd0 el0 # sims'))"

definition getStates :: "('sim, 'f) matter_sim \<Rightarrow> 'sim list \<Rightarrow> ('f list \<times> sim_state) list" where
  "getStates M sims =
     map (\<lambda>sim. let state = getState M sim
                in (get_image_feature M (st_scanId state) (st_viewpointId state), state)) sims"

subsection \<open>Construction: \<^verbatim>\<open>__init__\<close>\<close>

text \<open>
  Python's \<^verbatim>\<open>random\<close> module: \<^verbatim>\<open>random.seed\<close> yields a generator state, and
  \<^verbatim>\<open>random.shuffle\<close> reorders a list and advances the state.
\<close>

record 'g random_mod =
  random_seed :: "int \<Rightarrow> 'g"
  random_shuffle :: "'g \<Rightarrow> episode list \<Rightarrow> episode list \<times> 'g"

text \<open>
  What the constructor reads from disk: the all-pairs shortest paths and distances that
  \<^verbatim>\<open>networkx\<close> computes on the graphs \<^verbatim>\<open>load_nav_graphs\<close> loads from \<^verbatim>\<open>connectivity_dir\<close>, and
  the dictionary \<^verbatim>\<open>json.load\<close> reads from \<^verbatim>\<open>candidate_file_dir\<close>.
\<close>

record files =
  nav_shortest_paths :: "string \<rightharpoonup> (vp \<rightharpoonup> (vp \<rightharpoonup> vp list))"
  nav_shortest_distances :: "string \<rightharpoonup> dist_table"
  candidate_json :: "string \<rightharpoonup> (vp \<times> cand_entry) list"

text \<open>The arguments of \<^verbatim>\<open>__init__\<close> (\<^verbatim>\<open>view_db\<close> is the feature database of the simulator record).\<close>

record init_args =
  arg_instr_data :: "episode list"
  arg_connectivity_dir :: string
  arg_candidate_file_dir :: string
  arg_batch_size :: int
  arg_angle_feat_size :: int
  arg_seed :: int
  arg_name :: "string option"
  arg_sel_data_idxs :: "(int \<times> int) option"
  arg_real_world :: bool
  arg_server_path :: "string option"

text \<open>The dictionary comprehension of \<^verbatim>\<open>_get_gt_trajs\<close>: a later item overwrites an earlier one.\<close>

definition get_gt_trajs :: "bool \<Rightarrow> episode list \<Rightarrow> (string \<rightharpoonup> string \<times> vp list \<times> string option)" where
  "get_gt_trajs rw items =
     (if rw then Map.empty
      else fold (\<lambda>x m. m(ep_instr_id x \<mapsto> (ep_scan x, ep_path x, ep_objId x))) items Map.empty)"

text \<open>The validation split \<^verbatim>\<open>self.data[start_idx: end_idx]\<close>.\<close>

definition split_data :: "episode list \<Rightarrow> (int \<times> int) option \<Rightarrow> error + episode list" where
  "split_data items sel =
     (case sel of
        None \<Rightarrow> Inr items
      | Some (t_split, n_splits) \<Rightarrow>
          if n_splits = 0 then Inl ZeroDivisionError
          else
            let ndata_per_split = int (length items) div n_splits;
                start_idx = ndata_per_split * t_split;
                end_idx = (if t_split = n_splits - 1 then None
                           else Some (start_idx + ndata_per_split))
            in Inr (py_slice items (Some start_idx) end_idx))"

text \<open>
  \<^verbatim>\<open>_load_nav_graphs\<close>: returns at once in real-world mode, else stores the tables. (The
  attribute \<^verbatim>\<open>self.graphs\<close> it also assigns is read nowhere and is left out.)
\<close>

definition load_nav_graphs :: "files \<Rightarrow> ('sim, 'g) nav_batch \<Rightarrow> ('sim, 'g) nav_batch" where
  "load_nav_graphs F self =
     (if real_world self then self
      else self \<lparr> shortest_paths := Some (nav_shortest_paths F),
                  shortest_distances := Some (nav_shortest_distances F) \<rparr>)"

text \<open>
  \<^verbatim>\<open>__init__\<close>. Everything after \<^verbatim>\<open>self.server_path = server_path\<close> is under
  \<^verbatim>\<open>if not self.real_world\<close>; no statement assigns \<^verbatim>\<open>self.batch\<close> or \<^verbatim>\<open>self.obj2vps\<close>.
  \<open>g0\<close> is the state of the global random generator when the constructor is called.
\<close>

definition init ::
  "('sim, 'f) matter_sim \<Rightarrow> 'g random_mod \<Rightarrow> files \<Rightarrow> 'g \<Rightarrow> init_args \<Rightarrow> error + ('sim, 'g) nav_batch" where
  "init M R F g0 a =
     (let self0 =
        \<lparr> env = replicate (nat (arg_batch_size a)) (new_sim M),
          data = arg_instr_data a,
          scans = set (map ep_scan (arg_instr_data a)),
          connectivity_dir = arg_connectivity_dir a,
          batch_size = arg_batch_size a,
          angle_feat_size = arg_angle_feat_size a,
          name = arg_name a,
          real_world = arg_real_world a,
          server_path = arg_server_path a,
          gt_trajs = None, seed = None, ix = None,
          shortest_paths = None, shortest_distances = None,
          candidates_dict = None, batch = None, obj2vps = None,
          rng = g0 \<rparr>
      in if arg_real_world a then Inr self0
         else
           and_then (split_data (arg_instr_data a) (arg_sel_data_idxs a)) (\<lambda>selected.
             let (shuffled, g1) = random_shuffle R (random_seed R (arg_seed a)) selected;
                 self1 = self0 \<lparr> gt_trajs :=
                                    Some (get_gt_trajs (arg_real_world a) (arg_instr_data a)),
                                 data := shuffled,
                                 seed := Some (arg_seed a),
                                 rng := g1,
                                 ix := Some 0 \<rparr>
             in Inr (load_nav_graphs F self1 \<lparr> candidates_dict := Some (candidate_json F) \<rparr>)))"

definition size_data :: "('sim, 'g) nav_batch \<Rightarrow> int" where
  "size_data self = int (length (data self))"

subsection \<open>Minibatches: \<^verbatim>\<open>_next_minibatch\<close> and \<^verbatim>\<open>reset_epoch\<close>\<close>

definition next_minibatch ::
  "'g random_mod \<Rightarrow> ('sim, 'g) nav_batch \<Rightarrow> int option \<Rightarrow> error + ('sim, 'g) nav_batch" where
  "next_minibatch R self batch_size_arg =
     (let bs0 = (case batch_size_arg of None \<Rightarrow> batch_size self | Some b \<Rightarrow> b);
          bs = (if real_world self then 1 else bs0)
      in and_then (getattr ''ix'' (ix self)) (\<lambda>i.
           let b = py_slice (data self) (Some i) (Some (i + bs))
           in if int (length b) < bs
              then
                let (shuffled, g1) = random_shuffle R (rng self) (data self);
                    i1 = bs - int (length b)
                in Inr (self \<lparr> data := shuffled, rng := g1, ix := Some i1,
                              batch := Some (b @ py_slice shuffled None (Some i1)) \<rparr>)
              else Inr (self \<lparr> ix := Some (i + bs), batch := Some b \<rparr>)))"

definition reset_epoch :: "'g random_mod \<Rightarrow> ('sim, 'g) nav_batch \<Rightarrow> bool \<Rightarrow> ('sim, 'g) nav_batch" where
  "reset_epoch R self shuffle_flag =
     (if shuffle_flag
      then let (shuffled, g1) = random_shuffle R (rng self) (data self)
           in self \<lparr> data := shuffled, rng := g1, ix := Some 0 \<rparr>
      else self \<lparr> ix := Some 0 \<rparr>)"

subsection \<open>Candidates and observations: \<^verbatim>\<open>make_candidate\<close>, \<^verbatim>\<open>_get_obs\<close>\<close>

text \<open>\<^verbatim>\<open>math.radians\<close>.\<close>

definition radians :: "real \<Rightarrow> real" where
  "radians x = x * pi / 180"

text \<open>One dictionary \<^verbatim>\<open>c_new\<close>.\<close>

record 'f candidate =
  c_heading :: real
  c_elevation :: real
  c_normalized_heading :: real
  c_normalized_elevation :: real
  c_scanId :: string
  c_viewpointId :: vp
  c_pointId :: int
  c_distance :: real
  c_feature :: 'f
  c_position :: "real list"

definition base_heading :: "int \<Rightarrow> real" where
  "base_heading viewId = real_of_int (viewId mod 12) * radians 30"

definition base_elevation :: "int \<Rightarrow> real" where
  "base_elevation viewId = real_of_int (viewId div 12 - 1) * radians 30"

definition make_candidate ::
  "('sim, 'g) nav_batch \<Rightarrow> 'f list \<Rightarrow> string \<Rightarrow> vp \<Rightarrow> int \<Rightarrow> error + 'f candidate list" where
  "make_candidate self feature scanId viewpointId viewId =
     (let long_id = scanId @ ''_'' @ viewpointId
      in and_then (getattr ''candidates_dict'' (candidates_dict self)) (\<lambda>cd.
         and_then (getitem cd long_id) (\<lambda>cand.
         sequence (map (\<lambda>(key, val).
           and_then (py_index feature (ce_featureId val)) (\<lambda>feat.
             Inr \<lparr> c_heading = ce_heading val - base_heading viewId,
                   c_elevation = ce_elevation val - base_elevation viewId,
                   c_normalized_heading = ce_heading val,
                   c_normalized_elevation = ce_elevation val,
                   c_scanId = scanId,
                   c_viewpointId = key,
                   c_pointId = ce_pointId val,
                   c_distance = ce_distance val,
                   c_feature = feat,
                   c_position = ce_position val \<rparr>)) cand))))"

text \<open>One dictionary \<^verbatim>\<open>ob\<close>.\<close>

record 'f observation =
  ob_instr_id :: string
  ob_scan :: string
  ob_viewpoint :: vp
  ob_viewIndex :: int
  ob_position :: "real \<times> real \<times> real"
  ob_heading :: real
  ob_elevation :: real
  ob_feature :: "'f list"
  ob_candidate :: "'f candidate list"
  ob_navigableLocations :: "vp list"
  ob_instruction :: string
  ob_gt_path :: "vp list"
  ob_path_id :: "int option"
  ob_distance :: real

text \<open>The body of the loop of \<^verbatim>\<open>_get_obs\<close> for slot \<open>i\<close>.\<close>

definition get_ob ::
  "('sim, 'g) nav_batch \<Rightarrow> nat \<Rightarrow> 'f list \<Rightarrow> sim_state \<Rightarrow> error + 'f observation" where
  "get_ob self i feature state =
     and_then (getattr ''batch'' (batch self)) (\<lambda>b.
     and_then (py_index b (int i)) (\<lambda>item.
     and_then (make_candidate self feature (st_scanId state) (st_viewpointId state)
                 (st_viewIndex state)) (\<lambda>cands.
     and_then (getattr ''gt_trajs'' (gt_trajs self)) (\<lambda>gt.
     and_then
       (if ep_instr_id item \<in> dom gt
        then
          and_then (getattr ''shortest_distances'' (shortest_distances self)) (\<lambda>sd.
          and_then (getitem sd (st_scanId state)) (\<lambda>D.
          and_then (getitem D (st_viewpointId state)) (\<lambda>row.
          and_then (py_index (ep_path item) (- 1)) (\<lambda>goal.
          getitem row goal))))
        else Inr 0) (\<lambda>d.
     Inr \<lparr> ob_instr_id = ep_instr_id item,
           ob_scan = st_scanId state,
           ob_viewpoint = st_viewpointId state,
           ob_viewIndex = st_viewIndex state,
           ob_position = (st_x state, st_y state, st_z state),
           ob_heading = st_heading state,
           ob_elevation = st_elevation state,
           ob_feature = feature,
           ob_candidate = cands,
           ob_navigableLocations = st_navigableLocations state,
           ob_instruction = ep_instruction item,
           ob_gt_path = ep_path item,
           ob_path_id = ep_path_id item,
           ob_distance = d \<rparr>)))))"

text \<open>
  \<^verbatim>\<open>_get_obs\<close>. In real-world mode the first statement evaluates the name \<^verbatim>\<open>passf\<close>,
  which is bound nowhere.
\<close>

definition get_obs ::
  "('sim, 'f) matter_sim \<Rightarrow> ('sim, 'g) nav_batch \<Rightarrow> error + 'f observation list" where
  "get_obs M self =
     (if real_world self then Inl (NameError ''passf'')
      else
        let states = getStates M (env self)
        in sequence (map (\<lambda>(i, (feature, state)). get_ob self i feature state)
                         (zip [0 ..< length states] states)))"

subsection \<open>Episodes: \<^verbatim>\<open>reset\<close> and \<^verbatim>\<open>step\<close>\<close>

text \<open>
  Both return the observations or the exception, and the object as the call leaves it
  (an exception does not undo the assignments made before it).
\<close>

definition reset ::
  "('sim, 'f) matter_sim \<Rightarrow> 'g random_mod \<Rightarrow> ('sim, 'g) nav_batch \<Rightarrow> int option
     \<Rightarrow> (error + 'f observation list) \<times> ('sim, 'g) nav_batch" where
  "reset M R self batch_size_arg =
     (case next_minibatch R self batch_size_arg of
        Inl e \<Rightarrow> (Inl e, self)
      | Inr self1 \<Rightarrow>
          (case and_then (getattr ''batch'' (batch self1)) (\<lambda>b.
                and_then (sequence (map (\<lambda>item. py_index (ep_path item) 0) b)) (\<lambda>viewpointIds.
                Inr (zip (map ep_scan b) (zip viewpointIds (map ep_heading b))))) of
             Inl e \<Rightarrow> (Inl e, self1)
           | Inr episodes \<Rightarrow>
               (let (r, sims) = newEpisodes M (env self1) episodes;
                    self2 = self1 \<lparr> env := sims \<rparr>
                in case r of
                     Some e \<Rightarrow> (Inl e, self2)
                   | None \<Rightarrow> (get_obs M self2, self2))))"

definition step ::
  "('sim, 'f) matter_sim \<Rightarrow> ('sim, 'g) nav_batch \<Rightarrow> (int \<times> real \<times> real) list
     \<Rightarrow> (error + 'f observation list) \<times> ('sim, 'g) nav_batch" where
  "step M self actions =
     (let (r, sims) = makeActions M (env self) actions;
          self1 = self \<lparr> env := sims \<rparr>
      in case r of
           Some e \<Rightarrow> (Inl e, self1)
         | None \<Rightarrow> (get_obs M self1, self1))"

subsection \<open>Aggregation: \<^verbatim>\<open>eval_metrics\<close>\<close>

text \<open>One item of \<^verbatim>\<open>preds\<close>.\<close>

record prediction =
  pr_instr_id :: string
  pr_trajectory :: "vp list list"

text \<open>
  The loop of \<^verbatim>\<open>eval_metrics\<close>. The parallel lists of \<^verbatim>\<open>metrics\<close> are kept as one list of
  rows: row \<open>k\<close> holds the \<open>k\<close>-th entry of \<^verbatim>\<open>metrics['instr_id']\<close> and of every metric list.
\<close>

fun eval_rows ::
  "eval_utils \<Rightarrow> ('sim, 'g) nav_batch \<Rightarrow> prediction list \<Rightarrow> error + (string \<times> scores) list" where
  "eval_rows U self [] = Inr []"
| "eval_rows U self (item # rest) =
     and_then (getattr ''gt_trajs'' (gt_trajs self)) (\<lambda>gt.
     and_then (getitem gt (pr_instr_id item)) (\<lambda>(scan_id, gt_traj, gt_objid).
     and_then (eval_item U self scan_id (pr_trajectory item) gt_traj gt_objid) (\<lambda>traj_scores.
     and_then (eval_rows U self rest) (\<lambda>rows.
     Inr ((pr_instr_id item, traj_scores) # rows)))))"

text \<open>\<^verbatim>\<open>np.mean\<close>: the mean of an empty list is \<^verbatim>\<open>nan\<close>, here \<open>None\<close>.\<close>

definition np_mean :: "real list \<Rightarrow> real option" where
  "np_mean xs = (if xs = [] then None else Some (sum_list xs / real (length xs)))"

record avg_metrics =
  avg_action_steps :: "real option"
  avg_steps :: "real option"
  avg_lengths :: "real option"
  avg_nav_error :: "real option"
  avg_oracle_error :: "real option"
  avg_sr :: "real option"
  avg_oracle_sr :: "real option"
  avg_spl :: "real option"
  avg_nDTW :: "real option"
  avg_SDTW :: "real option"
  avg_CLS :: "real option"

definition eval_metrics ::
  "eval_utils \<Rightarrow> ('sim, 'g) nav_batch \<Rightarrow> prediction list
     \<Rightarrow> error + avg_metrics \<times> (string \<times> scores) list" where
  "eval_metrics U self preds =
     and_then (eval_rows U self preds) (\<lambda>rows.
       let col = (\<lambda>f. map (\<lambda>(instr, sc). f sc) rows);
           percent = map_option (\<lambda>m. m * 100)
       in Inr (\<lparr> avg_action_steps = np_mean (col (\<lambda>sc. real_of_int (action_steps sc))),
                  avg_steps = np_mean (col (\<lambda>sc. real_of_int (trajectory_steps sc))),
                  avg_lengths = np_mean (col trajectory_lengths),
                  avg_nav_error = np_mean (col nav_error),
                  avg_oracle_error = np_mean (col oracle_error),
                  avg_sr = percent (np_mean (col success)),
                  avg_oracle_sr = percent (np_mean (col oracle_success)),
                  avg_spl = percent (np_mean (col spl)),
                  avg_nDTW = percent (np_mean (col nDTW)),
                  avg_SDTW = percent (np_mean (col SDTW)),
                  avg_CLS = percent (np_mean (col CLS)) \<rparr>, rows))"

subsection \<open>Notions used in the statements\<close>

text \<open>Every table lookup between two viewpoints of \<open>vs\<close> succeeds.\<close>

definition distances_known :: "dist_table \<Rightarrow> vp list \<Rightarrow> bool" where
  "distances_known D vs = (\<forall>a \<in> set vs. \<forall>b \<in> set vs. \<not> isl (dist D a b))"

text \<open>No entry of the table is negative.\<close>

definition nonneg_table :: "dist_table \<Rightarrow> bool" where
  "nonneg_table D = (\<forall>a b d. dist D a b = Inr d \<longrightarrow> 0 \<le> d)"

text \<open>
  The objects a program can hold: what \<^verbatim>\<open>__init__\<close> returns, and what the methods that
  assign attributes (\<^verbatim>\<open>_next_minibatch\<close>, \<^verbatim>\<open>reset_epoch\<close>, \<^verbatim>\<open>reset\<close>, \<^verbatim>\<open>step\<close>) leave behind,
  whether or not they raise.
\<close>

inductive reachable ::
  "('sim, 'f) matter_sim \<Rightarrow> 'g random_mod \<Rightarrow> ('sim, 'g) nav_batch \<Rightarrow> bool"
  for M :: "('sim, 'f) matter_sim" and R :: "'g random_mod" where
    constructed: "init M R F g0 a = Inr self \<Longrightarrow> reachable M R self"
  | after_next_minibatch:
      "reachable M R self \<Longrightarrow> next_minibatch R self b = Inr self' \<Longrightarrow> reachable M R self'"
  | after_reset_epoch: "reachable M R self \<Longrightarrow> reachable M R (reset_epoch R self flag)"
  | after_reset: "reachable M R self \<Longrightarrow> reachable M R (snd (reset M R self b))"
  | after_step: "reachable M R self \<Longrightarrow> reachable M R (snd (step M self actions))"

text \<open>The batch size a call of \<^verbatim>\<open>_next_minibatch\<close> works with.\<close>

definition requested_size :: "('sim, 'g) nav_batch \<Rightarrow> int option \<Rightarrow> int" where
  "requested_size self batch_size_arg =
     (if real_world self then 1
      else case batch_size_arg of None \<Rightarrow> batch_size self | Some b \<Rightarrow> b)"

subsection \<open>A small instance\<close>

text \<open>
  Scan \<open>S1\<close>: the viewpoints \<open>A\<close>, \<open>B\<close>, \<open>C\<close>, \<open>D\<close> in a line, one unit apart, and its table
  of shortest distances.
\<close>

definition line_row :: "real \<Rightarrow> real \<Rightarrow> real \<Rightarrow> real \<Rightarrow> (vp \<rightharpoonup> real)" where
  "line_row a b c d = [''A'' \<mapsto> a, ''B'' \<mapsto> b, ''C'' \<mapsto> c, ''D'' \<mapsto> d]"

definition line_table :: dist_table where
  "line_table = [''A'' \<mapsto> line_row 0 1 2 3, ''B'' \<mapsto> line_row 1 0 1 2,
                 ''C'' \<mapsto> line_row 2 1 0 1, ''D'' \<mapsto> line_row 3 2 1 0]"

text \<open>A scan with two viewpoints \<open>A\<close> and \<open>B\<close> that are 0.005 apart.\<close>

definition close_table :: dist_table where
  "close_table = [''A'' \<mapsto> [''A'' \<mapsto> 0, ''B'' \<mapsto> 1 / 200],
                  ''B'' \<mapsto> [''A'' \<mapsto> 1 / 200, ''B'' \<mapsto> 0]]"

definition ex_files :: files where
  "ex_files =
     \<lparr> nav_shortest_paths = Map.empty,
       nav_shortest_distances = [''S1'' \<mapsto> line_table, ''S2'' \<mapsto> close_table],
       candidate_json =
         [''S1_A'' \<mapsto>
            [(''B'', \<lparr> ce_pointId = 14, ce_featureId = 2, ce_distance = 1, ce_heading = 1,
                       ce_elevation = 0, ce_position = [1, 0, 0] \<rparr>)]] \<rparr>"

definition ex_episode :: "string \<Rightarrow> episode" where
  "ex_episode i =
     \<lparr> ep_instr_id = i, ep_scan = ''S1'', ep_path = [''A'', ''B'', ''C''], ep_heading = 0,
       ep_instruction = ''go'', ep_objId = None, ep_path_id = None \<rparr>"

definition ex_args :: "episode list \<Rightarrow> int \<Rightarrow> bool \<Rightarrow> init_args" where
  "ex_args items n rw =
     \<lparr> arg_instr_data = items, arg_connectivity_dir = ''connectivity'',
       arg_candidate_file_dir = ''candidates.json'', arg_batch_size = n,
       arg_angle_feat_size = 4, arg_seed = 0, arg_name = None, arg_sel_data_idxs = None,
       arg_real_world = rw, arg_server_path = None \<rparr>"

text \<open>A simulator that stands still, a shuffle that reverses, helpers that return constants.\<close>

definition ex_state :: sim_state where
  "ex_state =
     \<lparr> st_scanId = ''S1'', st_viewpointId = ''A'', st_x = 0, st_y = 0, st_z = 0,
       st_viewIndex = 13, st_heading = 0, st_elevation = 0, st_navigableLocations = [''B''] \<rparr>"

definition ex_sim :: "(sim_state, nat) matter_sim" where
  "ex_sim =
     \<lparr> new_sim = ex_state,
       newEpisode = (\<lambda>sim scanId viewpointId h.
          sim \<lparr> st_scanId := scanId, st_viewpointId := viewpointId, st_heading := h \<rparr>),
       getState = (\<lambda>sim. sim),
       makeAction = (\<lambda>sim index h e. sim \<lparr> st_heading := h, st_elevation := e \<rparr>),
       get_image_feature = (\<lambda>scanId viewpointId. [10, 11, 12]) \<rparr>"

definition ex_random :: "unit random_mod" where
  "ex_random = \<lparr> random_seed = (\<lambda>n. ()), random_shuffle = (\<lambda>g xs. (rev xs, g)) \<rparr>"

definition ex_utils :: eval_utils where
  "ex_utils =
     \<lparr> cal_dtw = (\<lambda>D p g succ margin. Inr (1, succ)),
       cal_cls = (\<lambda>D p g margin. Inr 1) \<rparr>"

text \<open>The object \<^verbatim>\<open>__init__\<close> builds from one episode, and the one it builds in real-world mode.\<close>

definition ex_self :: "(sim_state, unit) nav_batch" where
  "ex_self =
     \<lparr> env = [ex_state], data = [ex_episode ''1''], scans = {''S1''},
       connectivity_dir = ''connectivity'', batch_size = 1, angle_feat_size = 4,
       name = None, real_world = False, server_path = None,
       gt_trajs = Some [''1'' \<mapsto> (''S1'', [''A'', ''B'', ''C''], None)],
       seed = Some 0, ix = Some 0,
       shortest_paths = Some Map.empty,
       shortest_distances = Some (nav_shortest_distances ex_files),
       candidates_dict = Some (candidate_json ex_files),
       batch = None, obj2vps = None, rng = () \<rparr>"

definition ex_real_world :: "(sim_state, unit) nav_batch" where
  "ex_real_world =
     \<lparr> env = [ex_state], data = [ex_episode ''1''], scans = {''S1''},
       connectivity_dir = ''connectivity'', batch_size = 1, angle_feat_size = 4,
       name = None, real_world = True, server_path = None,
       gt_trajs = None, seed = None, ix = None,
       shortest_paths = None, shortest_distances = None, candidates_dict = None,
       batch = None, obj2vps = None, rng = () \<rparr>"

text \<open>
  The scores of the prediction \<open>[[A]]\<close> against the reference \<open>[A, B, C, D]\<close> on \<open>S1\<close>
  under the single-goal policy: the agent stays exactly three units from the goal.
\<close>

definition boundary_scores :: scores where
  "boundary_scores =
     \<lparr> nav_error = 3, oracle_error = 3, action_steps = 0, trajectory_steps = 0,
       trajectory_lengths = 0, success = 0, oracle_success = 0, spl = 0,
       nDTW = 1, SDTW = 0, CLS = 1 \<rparr>"

text \<open>Scores of three further evaluations under the single-goal policy.\<close>

definition degenerate_scores :: scores where
  "degenerate_scores =
     \<lparr> nav_error = 0, oracle_error = 0, action_steps = 0, trajectory_steps = 0,
       trajectory_lengths = 0, success = 1, oracle_success = 1, spl = 0,
       nDTW = 1, SDTW = 1, CLS = 1 \<rparr>"

definition close_scores :: scores where
  "close_scores =
     \<lparr> nav_error = 0, oracle_error = 0, action_steps = 0, trajectory_steps = 1,
       trajectory_lengths = 1 / 200, success = 1, oracle_success = 1, spl = 1 / 2,
       nDTW = 1, SDTW = 1, CLS = 1 \<rparr>"

definition line_scores :: scores where
  "line_scores =
     \<lparr> nav_error = 0, oracle_error = 0, action_steps = 1, trajectory_steps = 2,
       trajectory_lengths = 2, success = 1, oracle_success = 1, spl = 1,
       nDTW = 1, SDTW = 1, CLS = 1 \<rparr>"

text \<open>
  A goal-membership table for \<open>S1\<close>: object \<open>7\<close> is visible from \<open>C\<close> and \<open>D\<close>, object \<open>8\<close>
  from nowhere; the scores of \<open>[[A], [B, C, D]]\<close> against \<open>[A, B, C]\<close> for object \<open>7\<close>.
\<close>

definition goal_table :: "string \<rightharpoonup> vp list" where
  "goal_table = [''S1_7'' \<mapsto> [''C'', ''D''], ''S1_8'' \<mapsto> []]"

definition goal_scores :: scores where
  "goal_scores =
     \<lparr> nav_error = 1, oracle_error = 0, action_steps = 1, trajectory_steps = 3,
       trajectory_lengths = 3, success = 1, oracle_success = 1, spl = 2 / 3,
       nDTW = 1, SDTW = 1, CLS = 1 \<rparr>"


text \<open>The means of no items, and a prediction for the instruction of \<open>ex_self\<close>.\<close>

definition nan_metrics :: avg_metrics where
  "nan_metrics =
     \<lparr> avg_action_steps = None, avg_steps = None, avg_lengths = None, avg_nav_error = None,
       avg_oracle_error = None, avg_sr = None, avg_oracle_sr = None, avg_spl = None,
       avg_nDTW = None, avg_SDTW = None, avg_CLS = None \<rparr>"

definition ex_prediction :: "vp list list \<Rightarrow> prediction" where
  "ex_prediction traj = \<lparr> pr_instr_id = ''1'', pr_trajectory = traj \<rparr>"




section \<open>Properties\<close>

subsection \<open>Basic facts about the primitives\<close>

lemma and_then_Inl [simp]: "and_then (Inl e) f = Inl e"
  by (simp add: and_then_def)

lemma and_then_Inr [simp]: "and_then (Inr x) f = f x"
  by (simp add: and_then_def)

lemma and_then_eq_Inr: "and_then m f = Inr y \<longleftrightarrow> (\<exists>x. m = Inr x \<and> f x = Inr y)"
  by (cases m) simp_all

lemma external_eq_Inr: "external m = Inr x \<longleftrightarrow> m = Inr x"
  by (cases m) (simp_all add: external_def)

lemma getattr_eq_Inr: "getattr a v = Inr x \<longleftrightarrow> v = Some x"
  by (cases v) (simp_all add: getattr_def)

lemma getattr_Some [simp]: "getattr a (Some x) = Inr x"
  by (simp add: getattr_def)

lemma getattr_None [simp]: "getattr a None = Inl (AttributeError a)"
  by (simp add: getattr_def)

lemma getitem_eq_Inr: "getitem d k = Inr x \<longleftrightarrow> d k = Some x"
  by (cases "d k") (simp_all add: getitem_def)

lemma py_index_first: "py_index xs 0 = (if xs = [] then Inl IndexError else Inr (hd xs))"
  by (cases xs) (simp_all add: py_index_def)

lemma py_index_last: "py_index xs (- 1) = (if xs = [] then Inl IndexError else Inr (last xs))"
proof (cases "xs = []")
  case True
  then show ?thesis by (simp add: py_index_def)
next
  case False
  then have "nat (int (length xs) - 1) = length xs - 1" and "Suc 0 \<le> length xs"
    by (simp_all add: Suc_le_eq)
  then show ?thesis using False by (simp add: py_index_def last_conv_nth)
qed

lemma sequence_eq_Inr:
  "sequence ms = Inr xs \<longleftrightarrow> length xs = length ms \<and> (\<forall>i<length ms. ms ! i = Inr (xs ! i))"
proof (induction ms arbitrary: xs)
  case Nil
  then show ?case by auto
next
  case (Cons m ms)
  show ?case
  proof (cases m)
    case (Inl e)
    then show ?thesis by (auto simp: nth_Cons split: nat.splits)
  next
    case (Inr x)
    show ?thesis
    proof (cases xs)
      case Nil
      then show ?thesis using Inr by (auto split: sum.splits)
    next
      case (Cons y ys)
      have "sequence (m # ms) = Inr (y # ys) \<longleftrightarrow> x = y \<and> sequence ms = Inr ys"
        using Inr by (auto split: sum.splits)
      also have "\<dots> \<longleftrightarrow> x = y \<and> length ys = length ms \<and> (\<forall>i<length ms. ms ! i = Inr (ys ! i))"
        using Cons.IH[of ys] by simp
      also have "\<dots> \<longleftrightarrow> length (y # ys) = length (m # ms) \<and>
                  (\<forall>i<length (m # ms). (m # ms) ! i = Inr ((y # ys) ! i))"
        using Inr by (auto simp: nth_Cons split: nat.splits)
      finally show ?thesis using Cons by simp
    qed
  qed
qed

lemma sequence_all_Inr:
  assumes "\<forall>m \<in> set ms. \<not> isl m"
  shows "\<exists>xs. sequence ms = Inr xs"
  using assms
proof (induction ms)
  case Nil
  then show ?case by simp
next
  case (Cons m ms)
  then obtain xs where "sequence ms = Inr xs" by auto
  moreover obtain x where "m = Inr x" using Cons.prems by (cases m) auto
  ultimately show ?case by simp
qed

subsection \<open>The nearest point of a path\<close>

lemma nearest_loop_spec:
  assumes "\<forall>x\<in>set xs. dist D x g = Inr (f x)"
  shows "\<exists>v. nearest_loop D g xs n (f n) = Inr v \<and> f v \<le> f n \<and> (\<forall>x\<in>set xs. f v \<le> f x) \<and>
           ((v = n \<and> (\<forall>x\<in>set xs. f n \<le> f x)) \<or>
            (\<exists>i<length xs. xs ! i = v \<and> f v < f n \<and> (\<forall>j<i. f v < f (xs ! j))))"
  using assms
proof (induction xs arbitrary: n)
  case Nil
  then show ?case by simp
next
  case (Cons x xs)
  have dx: "dist D x g = Inr (f x)" using Cons.prems by simp
  have rest: "\<forall>y\<in>set xs. dist D y g = Inr (f y)" using Cons.prems by simp
  show ?case
  proof (cases "f x < f n")
    case True
    from Cons.IH[OF rest, of x] obtain v where
      v: "nearest_loop D g xs x (f x) = Inr v" "f v \<le> f x" "\<forall>y\<in>set xs. f v \<le> f y"
      and alt: "(v = x \<and> (\<forall>y\<in>set xs. f x \<le> f y)) \<or>
            (\<exists>i<length xs. xs ! i = v \<and> f v < f x \<and> (\<forall>j<i. f v < f (xs ! j)))"
      by blast
    have run: "nearest_loop D g (x # xs) n (f n) = Inr v" using dx True v(1) by simp
    have idx: "\<exists>i<length (x # xs). (x # xs) ! i = v \<and> f v < f n \<and> (\<forall>j<i. f v < f ((x # xs) ! j))"
      using alt
    proof
      assume "v = x \<and> (\<forall>y\<in>set xs. f x \<le> f y)"
      then have "(x # xs) ! 0 = v \<and> f v < f n" using True by simp
      then show ?thesis by (intro exI[of _ 0]) simp
    next
      assume "\<exists>i<length xs. xs ! i = v \<and> f v < f x \<and> (\<forall>j<i. f v < f (xs ! j))"
      then obtain i where i: "i < length xs" "xs ! i = v" "f v < f x" "\<forall>j<i. f v < f (xs ! j)"
        by blast
      have "\<forall>j<Suc i. f v < f ((x # xs) ! j)"
      proof (intro allI impI)
        fix j assume "j < Suc i"
        then show "f v < f ((x # xs) ! j)" using i(3,4) by (cases j) auto
      qed
      then show ?thesis using i True by (intro exI[of _ "Suc i"]) auto
    qed
    show ?thesis using run v True idx by (intro exI[of _ v]) auto
  next
    case False
    from Cons.IH[OF rest, of n] obtain v where
      v: "nearest_loop D g xs n (f n) = Inr v" "f v \<le> f n" "\<forall>y\<in>set xs. f v \<le> f y"
      and alt: "(v = n \<and> (\<forall>y\<in>set xs. f n \<le> f y)) \<or>
            (\<exists>i<length xs. xs ! i = v \<and> f v < f n \<and> (\<forall>j<i. f v < f (xs ! j)))"
      by blast
    have run: "nearest_loop D g (x # xs) n (f n) = Inr v" using dx False v(1) by simp
    have alt': "(v = n \<and> (\<forall>y\<in>set (x # xs). f n \<le> f y)) \<or>
        (\<exists>i<length (x # xs). (x # xs) ! i = v \<and> f v < f n \<and> (\<forall>j<i. f v < f ((x # xs) ! j)))"
      using alt
    proof
      assume "v = n \<and> (\<forall>y\<in>set xs. f n \<le> f y)"
      then show ?thesis using False by auto
    next
      assume "\<exists>i<length xs. xs ! i = v \<and> f v < f n \<and> (\<forall>j<i. f v < f (xs ! j))"
      then obtain i where i: "i < length xs" "xs ! i = v" "f v < f n" "\<forall>j<i. f v < f (xs ! j)"
        by blast
      have "\<forall>j<Suc i. f v < f ((x # xs) ! j)"
      proof (intro allI impI)
        fix j assume "j < Suc i"
        then show "f v < f ((x # xs) ! j)" using i(3,4) False by (cases j) auto
      qed
      then have "\<exists>k<length (x # xs). (x # xs) ! k = v \<and> f v < f n \<and> (\<forall>j<k. f v < f ((x # xs) ! j))"
        using i by (intro exI[of _ "Suc i"]) auto
      then show ?thesis by blast
    qed
    have le: "\<forall>y\<in>set (x # xs). f v \<le> f y" using v(2,3) False by auto
    show ?thesis using run v(2) le alt' by (intro exI[of _ v]) blast
  qed
qed

lemma get_nearest_spec:
  assumes ne: "path \<noteq> []" and tot: "\<forall>x\<in>set path. dist D x g = Inr (f x)"
  shows "\<exists>v i. get_nearest D g path = Inr v \<and> i < length path \<and> path ! i = v \<and>
           (\<forall>x\<in>set path. f v \<le> f x) \<and> (\<forall>j<i. f v < f (path ! j))"
proof -
  obtain p ps where path: "path = p # ps" using ne by (cases path) auto
  have dp: "dist D p g = Inr (f p)" using tot path by simp
  have start: "get_nearest D g path = nearest_loop D g path p (f p)"
    using dp by (simp add: get_nearest_def py_index_def and_then_def path)
  from nearest_loop_spec[OF tot, of p] obtain v where
    v: "nearest_loop D g path p (f p) = Inr v" "\<forall>x\<in>set path. f v \<le> f x"
    and alt: "(v = p \<and> (\<forall>x\<in>set path. f p \<le> f x)) \<or>
            (\<exists>i<length path. path ! i = v \<and> f v < f p \<and> (\<forall>j<i. f v < f (path ! j)))"
    by blast
  from alt show ?thesis
  proof
    assume "v = p \<and> (\<forall>x\<in>set path. f p \<le> f x)"
    then have "0 < length path \<and> path ! 0 = v" using path by simp
    then show ?thesis using start v by (intro exI[of _ v] exI[of _ 0]) simp
  next
    assume "\<exists>i<length path. path ! i = v \<and> f v < f p \<and> (\<forall>j<i. f v < f (path ! j))"
    then obtain i where "i < length path" "path ! i = v" "\<forall>j<i. f v < f (path ! j)" by blast
    then show ?thesis using start v by (intro exI[of _ v] exI[of _ i]) simp
  qed
qed

subsection \<open>Path lengths\<close>

lemma consecutive_nth:
  assumes "i < length p - 1"
  shows "zip (butlast p) (tl p) ! i = (p ! i, p ! Suc i)"
  using assms by (simp add: nth_butlast nth_tl)

lemma path_length_eq_Inr:
  "path_length D p = Inr l \<longleftrightarrow>
     (\<exists>ds. length ds = length p - 1 \<and>
           (\<forall>i<length p - 1. dist D (p ! i) (p ! Suc i) = Inr (ds ! i)) \<and> l = sum_list ds)"
proof -
  let ?ms = "map (\<lambda>(a, b). dist D a b) (zip (butlast p) (tl p))"
  have len: "length ?ms = length p - 1" by simp
  have nth: "?ms ! i = dist D (p ! i) (p ! Suc i)" if "i < length p - 1" for i
    using that by (simp add: nth_butlast nth_tl)
  have "path_length D p = Inr l \<longleftrightarrow> (\<exists>ds. sequence ?ms = Inr ds \<and> l = sum_list ds)"
    by (auto simp: path_length_def and_then_eq_Inr)
  also have "\<dots> \<longleftrightarrow> (\<exists>ds. length ds = length ?ms \<and> (\<forall>i<length ?ms. ?ms ! i = Inr (ds ! i)) \<and>
                     l = sum_list ds)"
    unfolding sequence_eq_Inr by blast
  also have "\<dots> \<longleftrightarrow> (\<exists>ds. length ds = length p - 1 \<and>
           (\<forall>i<length p - 1. dist D (p ! i) (p ! Suc i) = Inr (ds ! i)) \<and> l = sum_list ds)"
    unfolding len using nth by auto
  finally show ?thesis .
qed

lemma path_length_single: "path_length D [v] = Inr 0"
  by (simp add: path_length_def)

lemma distances_knownD:
  assumes "distances_known D vs" "a \<in> set vs" "b \<in> set vs"
  shows "\<exists>d. dist D a b = Inr d"
proof -
  have "\<not> isl (dist D a b)" using assms unfolding distances_known_def by blast
  then show ?thesis by (cases "dist D a b") auto
qed

lemma distances_known_mono:
  assumes "distances_known D vs" "set ws \<subseteq> set vs"
  shows "distances_known D ws"
  using assms unfolding distances_known_def by blast

lemma path_length_known:
  assumes "distances_known D p"
  shows "\<exists>l. path_length D p = Inr l"
proof -
  have "\<forall>m \<in> set (map (\<lambda>(a, b). dist D a b) (zip (butlast p) (tl p))). \<not> isl m"
  proof
    fix m assume "m \<in> set (map (\<lambda>(a, b). dist D a b) (zip (butlast p) (tl p)))"
    then obtain a b where ab: "(a, b) \<in> set (zip (butlast p) (tl p))" and m: "m = dist D a b"
      by auto
    have "a \<in> set p" using ab by (meson in_set_butlastD set_zip_leftD)
    moreover have "b \<in> set (tl p)" using ab by (rule set_zip_rightD)
    then have "b \<in> set p" by (cases p) auto
    ultimately show "\<not> isl m" using assms m unfolding distances_known_def by blast
  qed
  from sequence_all_Inr[OF this] show ?thesis
    by (auto simp: path_length_def)
qed

lemma path_length_nonneg:
  assumes "nonneg_table D" "path_length D p = Inr l"
  shows "0 \<le> l"
proof -
  from assms(2) obtain ds where ds: "length ds = length p - 1"
    "\<forall>i<length p - 1. dist D (p ! i) (p ! Suc i) = Inr (ds ! i)" "l = sum_list ds"
    unfolding path_length_eq_Inr by blast
  have "\<forall>d \<in> set ds. 0 \<le> d"
  proof
    fix d assume "d \<in> set ds"
    then obtain i where "i < length ds" "ds ! i = d" by (auto simp: in_set_conv_nth)
    then have "dist D (p ! i) (p ! Suc i) = Inr d" using ds by auto
    then show "0 \<le> d" using assms(1) unfolding nonneg_table_def by blast
  qed
  then show ?thesis using ds(3) by (simp add: sum_list_nonneg)
qed

subsection \<open>The structure of \<^verbatim>\<open>_eval_item\<close>\<close>

lemma eval_item_Inr:
  assumes "eval_item U self scan_id pred_path gt_path gt_objid = Inr sc"
  shows "\<exists>tables D nearest gl o2v.
           shortest_distances self = Some tables \<and> tables scan_id = Some D \<and>
           gt_path \<noteq> [] \<and> concat pred_path \<noteq> [] \<and> hd gt_path = hd (concat pred_path) \<and>
           get_nearest D (last gt_path) (concat pred_path) = Inr nearest \<and>
           dist D (last (concat pred_path)) (last gt_path) = Inr (nav_error sc) \<and>
           dist D nearest (last gt_path) = Inr (oracle_error sc) \<and>
           path_length D (concat pred_path) = Inr (trajectory_lengths sc) \<and>
           path_length D gt_path = Inr gl \<and>
           obj2vps self = Some o2v \<and>
           success_policy o2v scan_id gt_objid (last (concat pred_path)) (concat pred_path)
             (nav_error sc) (oracle_error sc) = Inr (success sc, oracle_success sc) \<and>
           spl sc = success sc * gl / max (max (trajectory_lengths sc) gl) (1 / 100) \<and>
           action_steps sc = int (length pred_path) - 1 \<and>
           trajectory_steps sc = int (length (concat pred_path)) - 1"
  using assms
  unfolding eval_item_def Let_def
  by (auto simp: and_then_eq_Inr getattr_eq_Inr getitem_eq_Inr py_index_first py_index_last
           split: if_splits prod.splits)

text \<open>What \<^verbatim>\<open>_eval_item\<close> does once the table lookups and the start assertion have passed.\<close>

lemma eval_item_prefix:
  assumes sd: "shortest_distances self = Some tables" and tb: "tables scan_id = Some D"
    and gt: "gt_path \<noteq> []" and pp: "concat pred_path \<noteq> []"
    and start: "hd gt_path = hd (concat pred_path)"
    and known: "distances_known D (concat pred_path @ gt_path)"
  shows "\<exists>nearest nav_err oracle_err traj_len gl.
           get_nearest D (last gt_path) (concat pred_path) = Inr nearest \<and>
           dist D (last (concat pred_path)) (last gt_path) = Inr nav_err \<and>
           dist D nearest (last gt_path) = Inr oracle_err \<and>
           path_length D (concat pred_path) = Inr traj_len \<and>
           path_length D gt_path = Inr gl \<and>
           eval_item U self scan_id pred_path gt_path gt_objid =
             and_then (getattr ''obj2vps'' (obj2vps self)) (\<lambda>o2v.
             and_then (success_policy o2v scan_id gt_objid (last (concat pred_path))
                         (concat pred_path) nav_err oracle_err) (\<lambda>(succ, oracle_succ).
             and_then (external (cal_dtw U D (concat pred_path) gt_path succ ERROR_MARGIN))
               (\<lambda>(ndtw, sdtw).
             and_then (external (cal_cls U D (concat pred_path) gt_path ERROR_MARGIN)) (\<lambda>cls.
             Inr \<lparr> nav_error = nav_err, oracle_error = oracle_err,
                   action_steps = int (length pred_path) - 1,
                   trajectory_steps = int (length (concat pred_path)) - 1,
                   trajectory_lengths = traj_len,
                   success = succ, oracle_success = oracle_succ,
                   spl = succ * gl / max (max traj_len gl) (1 / 100),
                   nDTW = ndtw, SDTW = sdtw, CLS = cls \<rparr>))))"
proof -
  let ?p = "concat pred_path"
  let ?g = "last gt_path"
  define f where "f x = (case dist D x ?g of Inr d \<Rightarrow> d | Inl e \<Rightarrow> 0)" for x
  have g_in: "?g \<in> set (?p @ gt_path)" using gt by simp
  have f: "\<forall>x \<in> set ?p. dist D x ?g = Inr (f x)"
  proof
    fix x assume "x \<in> set ?p"
    then have "x \<in> set (?p @ gt_path)" by simp
    from distances_knownD[OF known this g_in] show "dist D x ?g = Inr (f x)"
      by (auto simp: f_def)
  qed
  from get_nearest_spec[OF pp f] obtain nearest where
    n: "get_nearest D ?g ?p = Inr nearest" "nearest \<in> set ?p"
    by (metis nth_mem)
  have "last ?p \<in> set ?p" using pp by (rule last_in_set)
  then have "last ?p \<in> set (?p @ gt_path)" by (metis Un_iff set_append)
  from distances_knownD[OF known this g_in] obtain nav_err where
    ne: "dist D (last ?p) ?g = Inr nav_err" by blast
  have "nearest \<in> set (?p @ gt_path)" using n(2) by simp
  from distances_knownD[OF known this g_in] obtain oracle_err where
    oe: "dist D nearest ?g = Inr oracle_err" by blast
  obtain traj_len where tl: "path_length D ?p = Inr traj_len"
    using path_length_known[OF distances_known_mono[OF known, of ?p]] by auto
  obtain gl where gl: "path_length D gt_path = Inr gl"
    using path_length_known[OF distances_known_mono[OF known, of gt_path]] by auto
  have "eval_item U self scan_id pred_path gt_path gt_objid =
             and_then (getattr ''obj2vps'' (obj2vps self)) (\<lambda>o2v.
             and_then (success_policy o2v scan_id gt_objid (last (concat pred_path))
                         (concat pred_path) nav_err oracle_err) (\<lambda>(succ, oracle_succ).
             and_then (external (cal_dtw U D (concat pred_path) gt_path succ ERROR_MARGIN))
               (\<lambda>(ndtw, sdtw).
             and_then (external (cal_cls U D (concat pred_path) gt_path ERROR_MARGIN)) (\<lambda>cls.
             Inr \<lparr> nav_error = nav_err, oracle_error = oracle_err,
                   action_steps = int (length pred_path) - 1,
                   trajectory_steps = int (length (concat pred_path)) - 1,
                   trajectory_lengths = traj_len,
                   success = succ, oracle_success = oracle_succ,
                   spl = succ * gl / max (max traj_len gl) (1 / 100),
                   nDTW = ndtw, SDTW = sdtw, CLS = cls \<rparr>))))"
    using sd tb gt pp start n(1) ne oe tl gl
    by (simp add: eval_item_def Let_def getitem_def py_index_first py_index_last
             del: concat_eq_Nil_conv)
  with n(1) ne oe tl gl show ?thesis by blast
qed

lemma and_then_eq_Inl: "and_then m f = Inl e \<longleftrightarrow> m = Inl e \<or> (\<exists>x. m = Inr x \<and> f x = Inl e)"
  by (cases m) simp_all

lemma getitem_Inl: "getitem d k = Inl e \<Longrightarrow> e = KeyError k"
  by (cases "d k") (simp_all add: getitem_def)

lemma dist_Inl: "dist D a b = Inl e \<Longrightarrow> \<exists>k. e = KeyError k"
  by (auto simp: dist_def and_then_eq_Inl dest: getitem_Inl)

lemma nearest_loop_Inl: "nearest_loop D g xs n d = Inl e \<Longrightarrow> \<exists>k. e = KeyError k"
  by (induction xs arbitrary: n d) (auto split: sum.splits if_splits dest: dist_Inl)

lemma get_nearest_Inl: "get_nearest D g xs = Inl e \<Longrightarrow> e = IndexError \<or> (\<exists>k. e = KeyError k)"
  by (auto simp: get_nearest_def and_then_eq_Inl py_index_first
      split: if_splits dest: dist_Inl nearest_loop_Inl)

lemma sequence_Inl: "sequence ms = Inl e \<Longrightarrow> Inl e \<in> set ms"
  by (induction ms) (auto split: sum.splits)

lemma path_length_Inl: "path_length D p = Inl e \<Longrightarrow> \<exists>k. e = KeyError k"
proof -
  assume "path_length D p = Inl e"
  then have "sequence (map (\<lambda>(a, b). dist D a b) (zip (butlast p) (tl p))) = Inl e"
    by (auto simp: path_length_def and_then_eq_Inl)
  then obtain a b where "dist D a b = Inl e"
    by (auto dest!: sequence_Inl)
  then show ?thesis by (rule dist_Inl)
qed

lemma external_Inl: "external m = Inl e \<Longrightarrow> \<exists>e'. e = External e'"
  by (cases m) (auto simp: external_def)

lemma success_policy_Inl:
  "success_policy o2v scan_id gt_objid final p ne oe = Inl e \<Longrightarrow>
     (\<exists>k. e = KeyError k) \<or> e = AssertionError (scan_id @ ''_'' @ py_str gt_objid)"
  by (auto simp: success_policy_def and_then_eq_Inl Let_def
      split: option.splits if_splits dest: getitem_Inl)

lemma start_message_not_key:
  "scan_id @ ''_'' @ s \<noteq> ''Result trajectories should include the start position''"
proof
  assume "scan_id @ ''_'' @ s = ''Result trajectories should include the start position''"
  then have "set (scan_id @ ''_'' @ s) =
               set ''Result trajectories should include the start position''"
    by simp
  moreover have "CHR ''_'' \<in> set (scan_id @ ''_'' @ s)" by simp
  ultimately show False by simp
qed

lemma success_policy_values:
  assumes "success_policy o2v scan_id gt_objid final p ne oe = Inr (s, os)"
  shows "(s = 0 \<or> s = 1) \<and> (os = 0 \<or> os = 1)"
  using assms
  by (auto simp: success_policy_def and_then_eq_Inr Let_def py_float_def
      split: option.splits if_splits)

lemma eval_item_not_start_assertion:
  assumes "gt_path \<noteq> []" "concat pred_path \<noteq> []" "hd (concat pred_path) = hd gt_path"
  shows "eval_item U self scan_id pred_path gt_path gt_objid \<noteq>
           Inl (AssertionError ''Result trajectories should include the start position'')"
proof
  assume "eval_item U self scan_id pred_path gt_path gt_objid =
           Inl (AssertionError ''Result trajectories should include the start position'')"
  then show False
    using assms start_message_not_key[of scan_id "py_str gt_objid"]
    unfolding eval_item_def Let_def
    by (auto simp: and_then_eq_Inl py_index_first py_index_last getattr_def
        simp del: concat_eq_Nil_conv
        split: if_splits prod.splits option.splits
        dest: getitem_Inl dist_Inl get_nearest_Inl path_length_Inl external_Inl
          success_policy_Inl)
qed

subsection \<open>Evaluating the small instance\<close>

lemmas ex_eval_simps =
  eval_item_def ex_self_def ex_files_def line_table_def line_row_def close_table_def
  get_nearest_def path_length_def dist_def getitem_def py_index_def success_policy_def
  py_float_def ERROR_MARGIN_def ex_utils_def external_def Let_def

section \<open>The claims\<close>

text \<open>
  C8. For a non-empty path whose viewpoints all have a distance to the goal in the scan's
  table (\<open>f\<close> is that distance), \<^verbatim>\<open>_get_nearest\<close> returns a viewpoint \<open>v\<close> of the path that
  has the least distance to the goal among the elements of the path, and \<open>v\<close> is the
  first element of the path with that distance: every earlier element is strictly farther.
\<close>

theorem get_nearest_minimal_first:
  assumes "path \<noteq> []" and "\<forall>x \<in> set path. dist D x goal_id = Inr (f x)"
  shows "\<exists>v i. get_nearest D goal_id path = Inr v \<and> v \<in> set path \<and>
           i < length path \<and> path ! i = v \<and>
           (\<forall>x \<in> set path. f v \<le> f x) \<and> (\<forall>j<i. f v < f (path ! j))"
  using get_nearest_spec[OF assms] by (metis nth_mem)

theorem get_nearest_minimal_first_witness:
  "[''A'', ''B'', ''D'', ''B''] \<noteq> [] \<and>
   dist line_table ''A'' ''C'' = Inr 2 \<and> dist line_table ''B'' ''C'' = Inr 1 \<and>
   dist line_table ''D'' ''C'' = Inr 1 \<and>
   get_nearest line_table ''C'' [''A'', ''B'', ''D'', ''B''] = Inr ''B'' \<and>
   (\<exists>v i. get_nearest line_table ''C'' [''A'', ''B'', ''D'', ''B''] = Inr v \<and>
      v \<in> set [''A'', ''B'', ''D'', ''B''] \<and>
      i < length [''A'', ''B'', ''D'', ''B''] \<and> [''A'', ''B'', ''D'', ''B''] ! i = v \<and>
      (\<forall>x \<in> set [''A'', ''B'', ''D'', ''B''].
         (if v = ''A'' then 2 else (1::real)) \<le> (if x = ''A'' then 2 else 1)) \<and>
      (\<forall>j<i. (if v = ''A'' then 2 else (1::real))
                < (if [''A'', ''B'', ''D'', ''B''] ! j = ''A'' then 2 else 1)))"
proof -
  have h1: "[''A'', ''B'', ''D'', ''B''] \<noteq> []" by simp
  have h2: "\<forall>x \<in> set [''A'', ''B'', ''D'', ''B''].
      dist line_table x ''C'' = Inr (if x = ''A'' then 2 else 1)"
    by (simp add: dist_def getitem_def line_table_def line_row_def)
  have h3: "get_nearest line_table ''C'' [''A'', ''B'', ''D'', ''B''] = Inr ''B''"
    by (simp add: get_nearest_def dist_def getitem_def line_table_def line_row_def py_index_def)
  have h4: "dist line_table ''A'' ''C'' = Inr 2 \<and> dist line_table ''B'' ''C'' = Inr 1 \<and>
      dist line_table ''D'' ''C'' = Inr 1"
    by (simp add: dist_def getitem_def line_table_def line_row_def)
  show ?thesis
    using h1 h3 h4 get_nearest_minimal_first[OF h1 h2] by blast
qed

text \<open>
  C3. Under the single-goal policy (\<^verbatim>\<open>obj2vps\<close> is \<^verbatim>\<open>None\<close>), whenever \<^verbatim>\<open>_eval_item\<close> returns
  scores, \<open>success\<close> is 1 exactly when \<open>nav_error < 3\<close> and 0 otherwise, and
  \<open>oracle_success\<close> is 1 exactly when \<open>oracle_error < 3\<close> and 0 otherwise; in particular a
  \<open>nav_error\<close> of exactly 3 gives \<open>success = 0\<close>. Here \<open>nav_error\<close> is the tabulated
  distance from the last predicted viewpoint to the last reference viewpoint, and
  \<open>oracle_error\<close> that from the nearest point of the predicted path.
\<close>

theorem single_goal_success:
  assumes "eval_item U self scan_id pred_path gt_path gt_objid = Inr sc"
    and "obj2vps self = Some None"
  shows "(success sc = 1 \<longleftrightarrow> nav_error sc < 3) \<and>
         (success sc = 0 \<longleftrightarrow> \<not> nav_error sc < 3) \<and>
         (oracle_success sc = 1 \<longleftrightarrow> oracle_error sc < 3) \<and>
         (oracle_success sc = 0 \<longleftrightarrow> \<not> oracle_error sc < 3) \<and>
         (nav_error sc = 3 \<longrightarrow> success sc = 0) \<and>
         (\<exists>tables D nearest.
            shortest_distances self = Some tables \<and> tables scan_id = Some D \<and>
            dist D (last (concat pred_path)) (last gt_path) = Inr (nav_error sc) \<and>
            get_nearest D (last gt_path) (concat pred_path) = Inr nearest \<and>
            dist D nearest (last gt_path) = Inr (oracle_error sc))"
proof -
  from eval_item_Inr[OF assms(1)] obtain tables D nearest o2v where
    facts: "shortest_distances self = Some tables" "tables scan_id = Some D"
      "get_nearest D (last gt_path) (concat pred_path) = Inr nearest"
      "dist D (last (concat pred_path)) (last gt_path) = Inr (nav_error sc)"
      "dist D nearest (last gt_path) = Inr (oracle_error sc)"
      "obj2vps self = Some o2v"
      "success_policy o2v scan_id gt_objid (last (concat pred_path)) (concat pred_path)
             (nav_error sc) (oracle_error sc) = Inr (success sc, oracle_success sc)"
    by blast
  from facts(6) assms(2) have "o2v = None" by simp
  with facts(7) have
    "success sc = py_float (nav_error sc < 3)" "oracle_success sc = py_float (oracle_error sc < 3)"
    by (simp_all add: success_policy_def ERROR_MARGIN_def)
  then have "(success sc = 1 \<longleftrightarrow> nav_error sc < 3) \<and>
         (success sc = 0 \<longleftrightarrow> \<not> nav_error sc < 3) \<and>
         (oracle_success sc = 1 \<longleftrightarrow> oracle_error sc < 3) \<and>
         (oracle_success sc = 0 \<longleftrightarrow> \<not> oracle_error sc < 3) \<and>
         (nav_error sc = 3 \<longrightarrow> success sc = 0)"
    by (simp add: py_float_def)
  with facts(1-5) show ?thesis by blast
qed

theorem single_goal_success_witness:
  "eval_item ex_utils (ex_self \<lparr> obj2vps := Some None \<rparr>) ''S1'' [[''A'']]
      [''A'', ''B'', ''C'', ''D''] None = Inr boundary_scores \<and>
   obj2vps (ex_self \<lparr> obj2vps := Some None \<rparr>) = Some None \<and>
   nav_error boundary_scores = 3 \<and> success boundary_scores = 0 \<and>
   (success boundary_scores = 1 \<longleftrightarrow> nav_error boundary_scores < 3) \<and>
   (oracle_success boundary_scores = 1 \<longleftrightarrow> oracle_error boundary_scores < 3)"
proof -
  have h1: "eval_item ex_utils (ex_self \<lparr> obj2vps := Some None \<rparr>) ''S1'' [[''A'']]
      [''A'', ''B'', ''C'', ''D''] None = Inr boundary_scores"
    by (simp add: ex_eval_simps boundary_scores_def)
  have h2: "obj2vps (ex_self \<lparr> obj2vps := Some None \<rparr>) = Some None" by simp
  show ?thesis
    using h1 h2 single_goal_success[OF h1 h2] by (simp add: boundary_scores_def)
qed

lemma line_table_nonneg: "nonneg_table line_table"
  unfolding nonneg_table_def
  by (auto simp: dist_def and_then_eq_Inr getitem_eq_Inr line_table_def line_row_def
      split: if_splits)


text \<open>
  C6. Whenever \<^verbatim>\<open>_eval_item\<close> returns scores, \<open>spl\<close> is
  \<open>success * gt_length / max(predicted_length, gt_length, 0.01)\<close>, where the two lengths are
  the sums of the tabulated distances between consecutive viewpoints of the flattened
  predicted path and of the reference path; the denominator is at least 0.01, so it is
  never zero, also on single-point paths (the witness).
\<close>

theorem spl_formula:
  assumes "eval_item U self scan_id pred_path gt_path gt_objid = Inr sc"
  shows "\<exists>tables D pl gl ds_pred ds_gt.
           shortest_distances self = Some tables \<and> tables scan_id = Some D \<and>
           path_length D (concat pred_path) = Inr pl \<and> path_length D gt_path = Inr gl \<and>
           length ds_pred = length (concat pred_path) - 1 \<and>
           (\<forall>i<length (concat pred_path) - 1.
              dist D (concat pred_path ! i) (concat pred_path ! Suc i) = Inr (ds_pred ! i)) \<and>
           pl = sum_list ds_pred \<and>
           length ds_gt = length gt_path - 1 \<and>
           (\<forall>i<length gt_path - 1. dist D (gt_path ! i) (gt_path ! Suc i) = Inr (ds_gt ! i)) \<and>
           gl = sum_list ds_gt \<and>
           trajectory_lengths sc = pl \<and>
           spl sc = success sc * gl / max (max pl gl) (1 / 100) \<and>
           1 / 100 \<le> max (max pl gl) (1 / 100) \<and> max (max pl gl) (1 / 100) \<noteq> 0"
proof -
  from eval_item_Inr[OF assms] obtain tables D gl where
    facts: "shortest_distances self = Some tables" "tables scan_id = Some D"
      "path_length D (concat pred_path) = Inr (trajectory_lengths sc)"
      "path_length D gt_path = Inr gl"
      "spl sc = success sc * gl / max (max (trajectory_lengths sc) gl) (1 / 100)"
    by blast
  from facts(3) obtain ds_pred where
    dp: "length ds_pred = length (concat pred_path) - 1"
      "\<forall>i<length (concat pred_path) - 1.
          dist D (concat pred_path ! i) (concat pred_path ! Suc i) = Inr (ds_pred ! i)"
      "trajectory_lengths sc = sum_list ds_pred"
    unfolding path_length_eq_Inr by blast
  from facts(4) obtain ds_gt where
    dg: "length ds_gt = length gt_path - 1"
      "\<forall>i<length gt_path - 1. dist D (gt_path ! i) (gt_path ! Suc i) = Inr (ds_gt ! i)"
      "gl = sum_list ds_gt"
    unfolding path_length_eq_Inr by blast
  have pos: "1 / 100 \<le> max (max (trajectory_lengths sc) gl) (1 / 100)"
    "max (max (trajectory_lengths sc) gl) (1 / 100) \<noteq> 0"
    by simp_all
  show ?thesis
    using facts dp dg pos by blast
qed

theorem spl_formula_witness:
  "eval_item ex_utils (ex_self \<lparr> obj2vps := Some None \<rparr>) ''S1'' [[''A'']] [''A''] None
     = Inr degenerate_scores \<and>
   path_length line_table [''A''] = Inr 0 \<and>
   spl degenerate_scores = success degenerate_scores * 0 / max (max 0 0) (1 / 100) \<and>
   (\<exists>tables D pl gl.
      shortest_distances (ex_self \<lparr> obj2vps := Some None \<rparr>) = Some tables \<and>
      tables ''S1'' = Some D \<and>
      path_length D (concat [[''A'']]) = Inr pl \<and> path_length D [''A''] = Inr gl \<and>
      spl degenerate_scores = success degenerate_scores * gl / max (max pl gl) (1 / 100) \<and>
      max (max pl gl) (1 / 100) \<noteq> 0)"
proof -
  have h: "eval_item ex_utils (ex_self \<lparr> obj2vps := Some None \<rparr>) ''S1'' [[''A'']] [''A''] None
     = Inr degenerate_scores"
    by (simp add: ex_eval_simps degenerate_scores_def)
  have p: "path_length line_table [''A''] = Inr 0" by (simp add: path_length_def)
  have s: "spl degenerate_scores = success degenerate_scores * 0 / max (max 0 0) (1 / 100)"
    by (simp add: degenerate_scores_def)
  from spl_formula[OF h] have
    "\<exists>tables D pl gl.
      shortest_distances (ex_self \<lparr> obj2vps := Some None \<rparr>) = Some tables \<and>
      tables ''S1'' = Some D \<and>
      path_length D (concat [[''A'']]) = Inr pl \<and> path_length D [''A''] = Inr gl \<and>
      spl degenerate_scores = success degenerate_scores * gl / max (max pl gl) (1 / 100) \<and>
      max (max pl gl) (1 / 100) \<noteq> 0"
    by blast
  with h p s show ?thesis by blast
qed

text \<open>
  C7. As stated the claim fails: two viewpoints 0.005 apart, predicted and reference path
  both \<open>[A, B]\<close>, give equal lengths, \<open>success = 1\<close> and \<open>spl = 0.5\<close>, because the
  denominator is floored at 0.01.
\<close>

theorem spl_equals_success_counterexample:
  "eval_item ex_utils (ex_self \<lparr> obj2vps := Some None \<rparr>) ''S2'' [[''A'', ''B'']]
      [''A'', ''B''] None = Inr close_scores \<and>
   path_length close_table (concat [[''A'', ''B'']]) = Inr (1 / 200) \<and>
   path_length close_table [''A'', ''B''] = Inr (1 / 200) \<and>
   success close_scores = 1 \<and> spl close_scores = 1 / 2 \<and>
   spl close_scores \<noteq> success close_scores"
  by (simp add: ex_eval_simps close_scores_def)

text \<open>
  C7, amended. When no entry of the scan's table is negative, \<open>spl\<close> lies in \<open>[0, 1]\<close>;
  and \<open>spl\<close> equals \<open>success\<close> whenever the predicted length equals the reference length
  and that length is at least 0.01 (or \<open>success\<close> is 0).
\<close>

theorem spl_range:
  assumes ev: "eval_item U self scan_id pred_path gt_path gt_objid = Inr sc"
    and sd: "shortest_distances self = Some tables" and tb: "tables scan_id = Some D"
    and nn: "nonneg_table D"
  shows "0 \<le> spl sc \<and> spl sc \<le> 1 \<and>
         (\<forall>gl. path_length D gt_path = Inr gl \<and> trajectory_lengths sc = gl \<and>
                (1 / 100 \<le> gl \<or> success sc = 0) \<longrightarrow> spl sc = success sc)"
proof -
  from eval_item_Inr[OF ev] sd tb obtain gl o2v where
    facts: "path_length D (concat pred_path) = Inr (trajectory_lengths sc)"
      "path_length D gt_path = Inr gl"
      "success_policy o2v scan_id gt_objid (last (concat pred_path)) (concat pred_path)
             (nav_error sc) (oracle_error sc) = Inr (success sc, oracle_success sc)"
      "spl sc = success sc * gl / max (max (trajectory_lengths sc) gl) (1 / 100)"
    by auto
  let ?pl = "trajectory_lengths sc"
  let ?m = "max (max ?pl gl) (1 / 100)"
  have pl0: "0 \<le> ?pl" using path_length_nonneg[OF nn facts(1)] .
  have gl0: "0 \<le> gl" using path_length_nonneg[OF nn facts(2)] .
  have s01: "success sc = 0 \<or> success sc = 1"
    using success_policy_values[OF facts(3)] by blast
  have mpos: "0 < ?m" by simp
  have glm: "gl \<le> ?m" by simp
  have ratio0: "0 \<le> gl / ?m" using gl0 mpos by simp
  have ratio1: "gl / ?m \<le> 1" using glm mpos by (simp add: divide_le_eq)
  have spl_eq: "spl sc = success sc * (gl / ?m)" using facts(4) by simp
  have lo: "0 \<le> spl sc" using s01 ratio0 spl_eq by auto
  have hi: "spl sc \<le> 1" using s01 ratio1 spl_eq by auto
  have same: "spl sc = success sc"
    if "path_length D gt_path = Inr gl'" "?pl = gl'" "1 / 100 \<le> gl' \<or> success sc = 0" for gl'
  proof -
    have g: "gl' = gl" using that(1) facts(2) by simp
    show ?thesis
    proof (cases "success sc = 0")
      case True
      then show ?thesis using spl_eq by simp
    next
      case False
      then have "1 / 100 \<le> gl" using that(3) g by simp
      moreover have "?pl = gl" using that(2) g by simp
      ultimately have "?m = gl" and "gl \<noteq> 0" by auto
      then show ?thesis using spl_eq by simp
    qed
  qed
  show ?thesis using lo hi same by blast
qed

theorem spl_range_witness:
  "eval_item ex_utils (ex_self \<lparr> obj2vps := Some None \<rparr>) ''S1'' [[''A''], [''B'', ''C'']]
      [''A'', ''B'', ''C''] None = Inr line_scores \<and>
   nonneg_table line_table \<and>
   path_length line_table [''A'', ''B'', ''C''] = Inr 2 \<and> trajectory_lengths line_scores = 2 \<and>
   0 \<le> spl line_scores \<and> spl line_scores \<le> 1 \<and> spl line_scores = success line_scores"
proof -
  let ?self = "ex_self \<lparr> obj2vps := Some None \<rparr>"
  have h: "eval_item ex_utils ?self ''S1'' [[''A''], [''B'', ''C'']]
      [''A'', ''B'', ''C''] None = Inr line_scores"
    by (simp add: ex_eval_simps line_scores_def)
  have sd: "shortest_distances ?self = Some (nav_shortest_distances ex_files)"
    by (simp add: ex_self_def)
  have tb: "nav_shortest_distances ex_files ''S1'' = Some line_table"
    by (simp add: ex_files_def)
  have p: "path_length line_table [''A'', ''B'', ''C''] = Inr 2"
    by (simp add: path_length_def dist_def getitem_def line_table_def line_row_def)
  have t: "trajectory_lengths line_scores = 2" by (simp add: line_scores_def)
  have g: "1 / 100 \<le> (2::real) \<or> success line_scores = 0" by simp
  from spl_range[OF h sd tb line_table_nonneg] p t g
  have "0 \<le> spl line_scores \<and> spl line_scores \<le> 1 \<and> spl line_scores = success line_scores"
    by blast
  with h line_table_nonneg p t show ?thesis by blast
qed

subsection \<open>The attribute \<^verbatim>\<open>obj2vps\<close>\<close>

lemma line_table_known: "distances_known line_table [''A'', ''B'', ''C'', ''D'', ''A'', ''B'', ''C'']"
  by (simp add: distances_known_def dist_def getitem_def line_table_def line_row_def)




lemma init_real_world:
  assumes "arg_real_world a"
  shows "init M R F g0 a =
     Inr \<lparr> env = replicate (nat (arg_batch_size a)) (new_sim M),
           data = arg_instr_data a,
           scans = set (map ep_scan (arg_instr_data a)),
           connectivity_dir = arg_connectivity_dir a,
           batch_size = arg_batch_size a,
           angle_feat_size = arg_angle_feat_size a,
           name = arg_name a,
           real_world = True,
           server_path = arg_server_path a,
           gt_trajs = None, seed = None, ix = None,
           shortest_paths = None, shortest_distances = None,
           candidates_dict = None, batch = None, obj2vps = None,
           rng = g0 \<rparr>"
  using assms by (simp add: init_def)

lemma init_simulated:
  assumes "\<not> arg_real_world a" and "init M R F g0 a = Inr self"
  shows "\<exists>selected shuffled g1.
           split_data (arg_instr_data a) (arg_sel_data_idxs a) = Inr selected \<and>
           random_shuffle R (random_seed R (arg_seed a)) selected = (shuffled, g1) \<and>
           self =
             \<lparr> env = replicate (nat (arg_batch_size a)) (new_sim M),
               data = shuffled,
               scans = set (map ep_scan (arg_instr_data a)),
               connectivity_dir = arg_connectivity_dir a,
               batch_size = arg_batch_size a,
               angle_feat_size = arg_angle_feat_size a,
               name = arg_name a,
               real_world = False,
               server_path = arg_server_path a,
               gt_trajs = Some (get_gt_trajs False (arg_instr_data a)),
               seed = Some (arg_seed a), ix = Some 0,
               shortest_paths = Some (nav_shortest_paths F),
               shortest_distances = Some (nav_shortest_distances F),
               candidates_dict = Some (candidate_json F), batch = None, obj2vps = None,
               rng = g1 \<rparr>"
proof -
  from assms obtain selected where
    sel: "split_data (arg_instr_data a) (arg_sel_data_idxs a) = Inr selected"
    by (auto simp: init_def load_nav_graphs_def Let_def and_then_eq_Inr)
  obtain shuffled g1 where
    sh: "random_shuffle R (random_seed R (arg_seed a)) selected = (shuffled, g1)"
    by (cases "random_shuffle R (random_seed R (arg_seed a)) selected") auto
  from assms sel sh show ?thesis
    by (auto simp: init_def load_nav_graphs_def Let_def)
qed

lemma init_obj2vps: "init M R F g0 a = Inr self \<Longrightarrow> obj2vps self = None"
proof (cases "arg_real_world a")
  case True
  assume "init M R F g0 a = Inr self"
  with init_real_world[OF True, of M R F g0] show ?thesis by auto
next
  case False
  assume "init M R F g0 a = Inr self"
  from init_simulated[OF False this] show ?thesis by auto
qed

lemma next_minibatch_obj2vps:
  "next_minibatch R self b = Inr self' \<Longrightarrow> obj2vps self' = obj2vps self"
  by (auto simp: next_minibatch_def Let_def and_then_eq_Inr split: if_splits prod.splits)

lemma reset_epoch_obj2vps: "obj2vps (reset_epoch R self flag) = obj2vps self"
  by (simp add: reset_epoch_def split: prod.splits)

lemma reset_obj2vps: "obj2vps (snd (reset M R self b)) = obj2vps self"
  by (auto simp: reset_def Let_def split: sum.splits prod.splits option.splits
      dest: next_minibatch_obj2vps)

lemma step_obj2vps: "obj2vps (snd (step M self actions)) = obj2vps self"
  by (auto simp: step_def Let_def split: prod.splits option.splits)

lemma reachable_obj2vps: "reachable M R self \<Longrightarrow> obj2vps self = None"
proof (induction rule: reachable.induct)
  case (constructed F g0 a self)
  then show ?case by (rule init_obj2vps)
next
  case (after_next_minibatch self b self')
  then show ?case by (simp add: next_minibatch_obj2vps)
next
  case (after_reset_epoch self flag)
  then show ?case by (simp add: reset_epoch_obj2vps)
next
  case (after_reset self b)
  then show ?case by (simp add: reset_obj2vps)
next
  case (after_step self actions)
  then show ?case by (simp add: step_obj2vps)
qed

lemma eval_item_unassigned:
  assumes "obj2vps self = None"
  shows "\<exists>e. eval_item U self scan_id pred_path gt_path gt_objid = Inl e"
proof (cases "eval_item U self scan_id pred_path gt_path gt_objid")
  case (Inl e)
  then show ?thesis by blast
next
  case (Inr sc)
  from eval_item_Inr[OF this] assms show ?thesis by auto
qed

lemma eval_item_unassigned_error:
  assumes "obj2vps self = None"
    and "shortest_distances self = Some tables" and "tables scan_id = Some D"
    and "gt_path \<noteq> []" and "concat pred_path \<noteq> []"
    and "hd gt_path = hd (concat pred_path)"
    and "distances_known D (concat pred_path @ gt_path)"
  shows "eval_item U self scan_id pred_path gt_path gt_objid = Inl (AttributeError ''obj2vps'')"
  using eval_item_prefix[OF assms(2-7), of U gt_objid] assms(1) by auto

lemma eval_metrics_Cons:
  "eval_metrics U self (item # rest) = Inr r \<Longrightarrow>
     \<exists>gt scan_id gt_traj gt_objid sc.
       gt_trajs self = Some gt \<and> gt (pr_instr_id item) = Some (scan_id, gt_traj, gt_objid) \<and>
       eval_item U self scan_id (pr_trajectory item) gt_traj gt_objid = Inr sc"
  by (auto simp: eval_metrics_def and_then_eq_Inr getattr_eq_Inr getitem_eq_Inr
      split: prod.splits)

lemma eval_metrics_unassigned:
  assumes "obj2vps self = None"
  shows "\<exists>e. eval_metrics U self (item # rest) = Inl e"
proof (cases "eval_metrics U self (item # rest)")
  case (Inl e)
  then show ?thesis by blast
next
  case (Inr r)
  from eval_metrics_Cons[OF this] obtain scan_id gt_traj gt_objid sc where
    "eval_item U self scan_id (pr_trajectory item) gt_traj gt_objid = Inr sc" by blast
  with eval_item_unassigned[OF assms, of U scan_id "pr_trajectory item" gt_traj gt_objid]
  show ?thesis by simp
qed

lemma eval_metrics_first_error:
  assumes "gt_trajs self = Some gt" and "gt (pr_instr_id item) = Some (scan_id, gt_traj, gt_objid)"
    and "eval_item U self scan_id (pr_trajectory item) gt_traj gt_objid = Inl e"
  shows "eval_metrics U self (item # rest) = Inl e"
  using assms by (simp add: eval_metrics_def getitem_def)

lemma ex_init:
  "init ex_sim ex_random ex_files () (ex_args [ex_episode ''1''] 1 False) = Inr ex_self"
  by (simp add: init_def load_nav_graphs_def ex_args_def ex_self_def ex_sim_def ex_random_def split_data_def
      get_gt_trajs_def ex_episode_def ex_files_def)

lemma ex_init_real_world:
  "init ex_sim ex_random ex_files () (ex_args [ex_episode ''1''] 1 True) = Inr ex_real_world"
  by (simp add: init_def ex_args_def ex_real_world_def ex_sim_def ex_episode_def)


text \<open>
  C9. When the scan has a table and both the flattened predicted path and the reference
  path are non-empty, \<^verbatim>\<open>_eval_item\<close> stops with the start assertion, returning no scores,
  exactly when the first viewpoint of the flattened predicted path differs from the first
  viewpoint of the reference path; when they are equal the assertion passes.
\<close>

theorem start_assertion:
  assumes "shortest_distances self = Some tables" and "tables scan_id = Some D"
    and "gt_path \<noteq> []" and "concat pred_path \<noteq> []"
  shows "eval_item U self scan_id pred_path gt_path gt_objid =
           Inl (AssertionError ''Result trajectories should include the start position'')
         \<longleftrightarrow> hd (concat pred_path) \<noteq> hd gt_path"
proof
  assume "eval_item U self scan_id pred_path gt_path gt_objid =
           Inl (AssertionError ''Result trajectories should include the start position'')"
  then show "hd (concat pred_path) \<noteq> hd gt_path"
    using eval_item_not_start_assertion[OF assms(3,4)] by blast
next
  assume "hd (concat pred_path) \<noteq> hd gt_path"
  then show "eval_item U self scan_id pred_path gt_path gt_objid =
           Inl (AssertionError ''Result trajectories should include the start position'')"
    using assms
    by (auto simp: eval_item_def Let_def getitem_def py_index_first
        simp del: concat_eq_Nil_conv)
qed

theorem start_assertion_witness:
  "shortest_distances ex_self = Some (nav_shortest_distances ex_files) \<and>
   nav_shortest_distances ex_files ''S1'' = Some line_table \<and>
   [''A'', ''B'', ''C''] \<noteq> [] \<and> concat [[''B''], [''C'']] \<noteq> [] \<and>
   hd (concat [[''B''], [''C'']]) \<noteq> hd [''A'', ''B'', ''C''] \<and>
   eval_item ex_utils ex_self ''S1'' [[''B''], [''C'']] [''A'', ''B'', ''C''] None =
     Inl (AssertionError ''Result trajectories should include the start position'') \<and>
   hd (concat [[''A''], [''B'', ''C'']]) = hd [''A'', ''B'', ''C''] \<and>
   eval_item ex_utils ex_self ''S1'' [[''A''], [''B'', ''C'']] [''A'', ''B'', ''C''] None \<noteq>
     Inl (AssertionError ''Result trajectories should include the start position'')"
proof -
  have sd: "shortest_distances ex_self = Some (nav_shortest_distances ex_files)"
    by (simp add: ex_self_def)
  have tb: "nav_shortest_distances ex_files ''S1'' = Some line_table"
    by (simp add: ex_files_def)
  have g: "[''A'', ''B'', ''C''] \<noteq> []" by simp
  have p1: "concat [[''B''], [''C'']] \<noteq> []" by simp
  have p2: "concat [[''A''], [''B'', ''C'']] \<noteq> []" by simp
  have d: "hd (concat [[''B''], [''C'']]) \<noteq> hd [''A'', ''B'', ''C'']" by simp
  have e: "hd (concat [[''A''], [''B'', ''C'']]) = hd [''A'', ''B'', ''C'']" by simp
  show ?thesis
    using sd tb g p1 d e
      start_assertion[OF sd tb g p1, of ex_utils None]
      start_assertion[OF sd tb g p2, of ex_utils None]
    by blast
qed

text \<open>
  C5. Under the multi-goal policy, with the goal viewpoints \<open>vps\<close> stored for the key
  \<open>scan_objid\<close>: whenever \<^verbatim>\<open>_eval_item\<close> returns scores, \<open>success\<close> is 1 exactly when the last
  viewpoint of the flattened predicted path is a goal viewpoint (and 0 otherwise), and
  \<open>oracle_success\<close> is 1 exactly when some viewpoint of the flattened path is one (and 0
  otherwise). With an empty goal set no scores are returned, and the exception is the
  assertion on the goal set once the statements before it have passed.
\<close>

theorem multi_goal_success:
  assumes o2v: "obj2vps self = Some (Some tbl)"
    and key: "tbl (scan_id @ ''_'' @ py_str gt_objid) = Some vps"
  shows "(\<forall>sc. eval_item U self scan_id pred_path gt_path gt_objid = Inr sc \<longrightarrow>
            (success sc = 1 \<longleftrightarrow> last (concat pred_path) \<in> set vps) \<and>
            (success sc = 0 \<longleftrightarrow> last (concat pred_path) \<notin> set vps) \<and>
            (oracle_success sc = 1 \<longleftrightarrow> (\<exists>x \<in> set (concat pred_path). x \<in> set vps)) \<and>
            (oracle_success sc = 0 \<longleftrightarrow> \<not> (\<exists>x \<in> set (concat pred_path). x \<in> set vps)) \<and>
            set vps \<noteq> {}) \<and>
         (set vps = {} \<longrightarrow>
            (\<exists>e. eval_item U self scan_id pred_path gt_path gt_objid = Inl e) \<and>
            (\<forall>tables D.
               shortest_distances self = Some tables \<and> tables scan_id = Some D \<and>
               gt_path \<noteq> [] \<and> concat pred_path \<noteq> [] \<and>
               hd gt_path = hd (concat pred_path) \<and>
               distances_known D (concat pred_path @ gt_path) \<longrightarrow>
               eval_item U self scan_id pred_path gt_path gt_objid =
                 Inl (AssertionError (scan_id @ ''_'' @ py_str gt_objid))))"
proof -
  have scored: "(success sc = 1 \<longleftrightarrow> last (concat pred_path) \<in> set vps) \<and>
            (success sc = 0 \<longleftrightarrow> last (concat pred_path) \<notin> set vps) \<and>
            (oracle_success sc = 1 \<longleftrightarrow> (\<exists>x \<in> set (concat pred_path). x \<in> set vps)) \<and>
            (oracle_success sc = 0 \<longleftrightarrow> \<not> (\<exists>x \<in> set (concat pred_path). x \<in> set vps)) \<and>
            set vps \<noteq> {}"
    if ev: "eval_item U self scan_id pred_path gt_path gt_objid = Inr sc" for sc
  proof -
    from eval_item_Inr[OF ev] o2v have
      pol: "success_policy (Some tbl) scan_id gt_objid (last (concat pred_path))
              (concat pred_path) (nav_error sc) (oracle_error sc)
            = Inr (success sc, oracle_success sc)"
      by auto
    then show ?thesis
      using key
      by (auto simp: success_policy_def getitem_def Let_def py_float_def card_gt_0_iff
          split: if_splits)
  qed
  have never: "\<exists>e. eval_item U self scan_id pred_path gt_path gt_objid = Inl e"
    if "set vps = {}"
  proof (cases "eval_item U self scan_id pred_path gt_path gt_objid")
    case (Inl e)
    then show ?thesis by blast
  next
    case (Inr sc)
    from scored[OF this] that show ?thesis by blast
  qed
  have asserted: "eval_item U self scan_id pred_path gt_path gt_objid =
                 Inl (AssertionError (scan_id @ ''_'' @ py_str gt_objid))"
    if e: "set vps = {}" and sd: "shortest_distances self = Some tables"
      and tb: "tables scan_id = Some D" and g: "gt_path \<noteq> []" and p: "concat pred_path \<noteq> []"
      and h: "hd gt_path = hd (concat pred_path)"
      and k: "distances_known D (concat pred_path @ gt_path)" for tables D
  proof -
    from eval_item_prefix[OF sd tb g p h k, of U gt_objid] obtain nav_err oracle_err traj_len gl where
      "eval_item U self scan_id pred_path gt_path gt_objid =
         and_then (getattr ''obj2vps'' (obj2vps self)) (\<lambda>o2v.
           and_then (success_policy o2v scan_id gt_objid (last (concat pred_path))
                         (concat pred_path) nav_err oracle_err) (\<lambda>(succ, oracle_succ).
             and_then (external (cal_dtw U D (concat pred_path) gt_path succ ERROR_MARGIN))
               (\<lambda>(ndtw, sdtw).
             and_then (external (cal_cls U D (concat pred_path) gt_path ERROR_MARGIN)) (\<lambda>cls.
             Inr \<lparr> nav_error = nav_err, oracle_error = oracle_err,
                   action_steps = int (length pred_path) - 1,
                   trajectory_steps = int (length (concat pred_path)) - 1,
                   trajectory_lengths = traj_len,
                   success = succ, oracle_success = oracle_succ,
                   spl = succ * gl / max (max traj_len gl) (1 / 100),
                   nDTW = ndtw, SDTW = sdtw, CLS = cls \<rparr>))))"
      by blast
    then show ?thesis
      using o2v key e by (simp add: success_policy_def getitem_def Let_def)
  qed
  show ?thesis using scored never asserted by blast
qed

theorem multi_goal_success_witness:
  "obj2vps (ex_self \<lparr> obj2vps := Some (Some goal_table) \<rparr>) = Some (Some goal_table) \<and>
   goal_table (''S1'' @ ''_'' @ py_str (Some ''7'')) = Some [''C'', ''D''] \<and>
   eval_item ex_utils (ex_self \<lparr> obj2vps := Some (Some goal_table) \<rparr>) ''S1''
     [[''A''], [''B'', ''C'', ''D'']] [''A'', ''B'', ''C''] (Some ''7'') = Inr goal_scores \<and>
   (success goal_scores = 1 \<longleftrightarrow> last (concat [[''A''], [''B'', ''C'', ''D'']]) \<in> set [''C'', ''D'']) \<and>
   success goal_scores = 1 \<and> oracle_success goal_scores = 1 \<and>
   goal_table (''S1'' @ ''_'' @ py_str (Some ''8'')) = Some [] \<and>
   eval_item ex_utils (ex_self \<lparr> obj2vps := Some (Some goal_table) \<rparr>) ''S1''
     [[''A''], [''B'', ''C'', ''D'']] [''A'', ''B'', ''C''] (Some ''8'')
     = Inl (AssertionError ''S1_8'')"
proof -
  let ?self = "ex_self \<lparr> obj2vps := Some (Some goal_table) \<rparr>"
  let ?pred = "[[''A''], [''B'', ''C'', ''D'']]"
  let ?gt = "[''A'', ''B'', ''C'']"
  have o: "obj2vps ?self = Some (Some goal_table)" by simp
  have k7: "goal_table (''S1'' @ ''_'' @ py_str (Some ''7'')) = Some [''C'', ''D'']"
    by (simp add: goal_table_def py_str_def)
  have k8: "goal_table (''S1'' @ ''_'' @ py_str (Some ''8'')) = Some []"
    by (simp add: goal_table_def py_str_def)
  have ev: "eval_item ex_utils ?self ''S1'' ?pred ?gt (Some ''7'') = Inr goal_scores"
    by (auto simp: ex_eval_simps goal_scores_def goal_table_def py_str_def)
  have sd: "shortest_distances ?self = Some (nav_shortest_distances ex_files)"
    by (simp add: ex_self_def)
  have tb: "nav_shortest_distances ex_files ''S1'' = Some line_table"
    by (simp add: ex_files_def)
  have pre: "?gt \<noteq> [] \<and> concat ?pred \<noteq> [] \<and> hd ?gt = hd (concat ?pred) \<and>
      distances_known line_table (concat ?pred @ ?gt)"
    using line_table_known by simp
  have vals: "success goal_scores = 1 \<and> oracle_success goal_scores = 1"
    by (simp add: goal_scores_def)
  from multi_goal_success[OF o k7, of ex_utils ?pred ?gt] ev
  have a: "success goal_scores = 1 \<longleftrightarrow> last (concat ?pred) \<in> set [''C'', ''D'']"
    by blast
  from multi_goal_success[OF o k8, of ex_utils ?pred ?gt] sd tb pre
  have b: "eval_item ex_utils ?self ''S1'' ?pred ?gt (Some ''8'')
      = Inl (AssertionError (''S1'' @ ''_'' @ py_str (Some ''8'')))"
    by simp
  then have b': "eval_item ex_utils ?self ''S1'' ?pred ?gt (Some ''8'')
      = Inl (AssertionError ''S1_8'')"
    by (simp add: py_str_def)
  show ?thesis using o k7 ev a vals k8 b' by blast
qed


text \<open>
  C2. As stated the claim fails: on the object \<^verbatim>\<open>__init__\<close> builds, a prediction that starts
  elsewhere than the reference path stops \<^verbatim>\<open>_eval_item\<close> and \<^verbatim>\<open>eval_metrics\<close> with the start
  assertion, not with an attribute error; and \<^verbatim>\<open>eval_metrics\<close> of no predictions returns.
\<close>

theorem eval_fresh_counterexample:
  "init ex_sim ex_random ex_files () (ex_args [ex_episode ''1''] 1 False) = Inr ex_self \<and>
   eval_item ex_utils ex_self ''S1'' [[''B''], [''C'']] [''A'', ''B'', ''C''] None =
     Inl (AssertionError ''Result trajectories should include the start position'') \<and>
   eval_metrics ex_utils ex_self [ex_prediction [[''B''], [''C'']]] =
     Inl (AssertionError ''Result trajectories should include the start position'') \<and>
   eval_metrics ex_utils ex_self [] = Inr (nan_metrics, [])"
proof -
  have a: "eval_item ex_utils ex_self ''S1'' [[''B''], [''C'']] [''A'', ''B'', ''C''] None =
     Inl (AssertionError ''Result trajectories should include the start position'')"
    by (simp add: ex_eval_simps)
  have gt: "gt_trajs ex_self = Some [''1'' \<mapsto> (''S1'', [''A'', ''B'', ''C''], None)]"
    by (simp add: ex_self_def)
  have k: "[''1'' \<mapsto> (''S1'', [''A'', ''B'', ''C''], None)]
             (pr_instr_id (ex_prediction [[''B''], [''C'']]))
           = Some (''S1'', [''A'', ''B'', ''C''], None)"
    by (simp add: ex_prediction_def)
  have a': "eval_item ex_utils ex_self ''S1'' (pr_trajectory (ex_prediction [[''B''], [''C'']]))
      [''A'', ''B'', ''C''] None =
     Inl (AssertionError ''Result trajectories should include the start position'')"
    using a by (simp add: ex_prediction_def)
  have b: "eval_metrics ex_utils ex_self [ex_prediction [[''B''], [''C'']]] =
     Inl (AssertionError ''Result trajectories should include the start position'')"
    using gt k a' by (rule eval_metrics_first_error)
  have c: "eval_metrics ex_utils ex_self [] = Inr (nan_metrics, [])"
    by (simp add: eval_metrics_def np_mean_def nan_metrics_def)
  show ?thesis using ex_init a b c by blast
qed

text \<open>
  C2, amended. On every object built by \<^verbatim>\<open>__init__\<close> and then used through the methods of
  the class, \<^verbatim>\<open>obj2vps\<close> is not assigned. So \<^verbatim>\<open>_eval_item\<close> never returns scores, and neither
  does \<^verbatim>\<open>eval_metrics\<close> on at least one prediction; the exception is the attribute error
  on \<^verbatim>\<open>obj2vps\<close> whenever the statements before the policy selection pass (the scan has
  a table, both paths are non-empty and start at the same viewpoint, the distances
  between their viewpoints are tabulated).
\<close>

theorem obj2vps_never_assigned:
  assumes "reachable M R self"
  shows "obj2vps self = None \<and>
         (\<forall>U scan_id pred_path gt_path gt_objid.
            \<exists>e. eval_item U self scan_id pred_path gt_path gt_objid = Inl e) \<and>
         (\<forall>U item rest. \<exists>e. eval_metrics U self (item # rest) = Inl e) \<and>
         (\<forall>U scan_id pred_path gt_path gt_objid tables D.
            shortest_distances self = Some tables \<and> tables scan_id = Some D \<and>
            gt_path \<noteq> [] \<and> concat pred_path \<noteq> [] \<and> hd gt_path = hd (concat pred_path) \<and>
            distances_known D (concat pred_path @ gt_path) \<longrightarrow>
            eval_item U self scan_id pred_path gt_path gt_objid
              = Inl (AttributeError ''obj2vps'')) \<and>
         (\<forall>U item rest gt scan_id gt_path gt_objid tables D.
            gt_trajs self = Some gt \<and>
            gt (pr_instr_id item) = Some (scan_id, gt_path, gt_objid) \<and>
            shortest_distances self = Some tables \<and> tables scan_id = Some D \<and>
            gt_path \<noteq> [] \<and> concat (pr_trajectory item) \<noteq> [] \<and>
            hd gt_path = hd (concat (pr_trajectory item)) \<and>
            distances_known D (concat (pr_trajectory item) @ gt_path) \<longrightarrow>
            eval_metrics U self (item # rest) = Inl (AttributeError ''obj2vps''))"
proof -
  have none: "obj2vps self = None" using assms by (rule reachable_obj2vps)
  have items: "\<exists>e. eval_item U self scan_id pred_path gt_path gt_objid = Inl e"
    for U scan_id pred_path gt_path gt_objid
    using none by (rule eval_item_unassigned)
  have metrics: "\<exists>e. eval_metrics U self (item # rest) = Inl e" for U item rest
    using none by (rule eval_metrics_unassigned)
  have attr: "eval_item U self scan_id pred_path gt_path gt_objid
              = Inl (AttributeError ''obj2vps'')"
    if "shortest_distances self = Some tables \<and> tables scan_id = Some D \<and>
            gt_path \<noteq> [] \<and> concat pred_path \<noteq> [] \<and> hd gt_path = hd (concat pred_path) \<and>
            distances_known D (concat pred_path @ gt_path)"
    for U scan_id pred_path gt_path gt_objid tables D
    using that eval_item_unassigned_error[OF none] by blast
  have attr_metrics: "eval_metrics U self (item # rest) = Inl (AttributeError ''obj2vps'')"
    if "gt_trajs self = Some gt \<and>
            gt (pr_instr_id item) = Some (scan_id, gt_path, gt_objid) \<and>
            shortest_distances self = Some tables \<and> tables scan_id = Some D \<and>
            gt_path \<noteq> [] \<and> concat (pr_trajectory item) \<noteq> [] \<and>
            hd gt_path = hd (concat (pr_trajectory item)) \<and>
            distances_known D (concat (pr_trajectory item) @ gt_path)"
    for U item rest gt scan_id gt_path gt_objid tables D
  proof -
    have "eval_item U self scan_id (pr_trajectory item) gt_path gt_objid
              = Inl (AttributeError ''obj2vps'')"
      using that attr by blast
    with that show ?thesis using eval_metrics_first_error by blast
  qed
  show ?thesis
    apply (intro conjI allI impI)
    subgoal by (rule none)
    subgoal by (rule items)
    subgoal by (rule metrics)
    subgoal by (erule attr)
    subgoal by (erule attr_metrics)
    done
qed

theorem obj2vps_never_assigned_witness:
  "reachable ex_sim ex_random ex_self \<and> obj2vps ex_self = None \<and>
   eval_item ex_utils ex_self ''S1'' [[''A''], [''B'', ''C'']] [''A'', ''B'', ''C''] None
     = Inl (AttributeError ''obj2vps'') \<and>
   eval_metrics ex_utils ex_self [ex_prediction [[''A''], [''B'', ''C'']]]
     = Inl (AttributeError ''obj2vps'')"
proof -
  have r: "reachable ex_sim ex_random ex_self"
    using ex_init by (rule reachable.constructed)
  have sd: "shortest_distances ex_self = Some (nav_shortest_distances ex_files)"
    by (simp add: ex_self_def)
  have tb: "nav_shortest_distances ex_files ''S1'' = Some line_table"
    by (simp add: ex_files_def)
  have gt: "gt_trajs ex_self = Some [''1'' \<mapsto> (''S1'', [''A'', ''B'', ''C''], None)]"
    by (simp add: ex_self_def)
  have k: "[''1'' \<mapsto> (''S1'', [''A'', ''B'', ''C''], None)]
             (pr_instr_id (ex_prediction [[''A''], [''B'', ''C'']]))
           = Some (''S1'', [''A'', ''B'', ''C''], None)"
    by (simp add: ex_prediction_def)
  have tr: "pr_trajectory (ex_prediction [[''A''], [''B'', ''C'']]) = [[''A''], [''B'', ''C'']]"
    by (simp add: ex_prediction_def)
  have pre: "[''A'', ''B'', ''C''] \<noteq> [] \<and> concat [[''A''], [''B'', ''C'']] \<noteq> [] \<and>
      hd [''A'', ''B'', ''C''] = hd (concat [[''A''], [''B'', ''C'']]) \<and>
      distances_known line_table (concat [[''A''], [''B'', ''C'']] @ [''A'', ''B'', ''C''])"
    by (simp add: distances_known_def dist_def getitem_def line_table_def line_row_def)
  have pre': "[''A'', ''B'', ''C''] \<noteq> [] \<and>
      concat (pr_trajectory (ex_prediction [[''A''], [''B'', ''C'']])) \<noteq> [] \<and>
      hd [''A'', ''B'', ''C''] = hd (concat (pr_trajectory (ex_prediction [[''A''], [''B'', ''C'']]))) \<and>
      distances_known line_table
        (concat (pr_trajectory (ex_prediction [[''A''], [''B'', ''C'']])) @ [''A'', ''B'', ''C''])"
    unfolding tr by (rule pre)
  note inst = obj2vps_never_assigned[OF r]
  have a: "obj2vps ex_self = None" using inst by blast
  have b: "eval_item ex_utils ex_self ''S1'' [[''A''], [''B'', ''C'']] [''A'', ''B'', ''C''] None
     = Inl (AttributeError ''obj2vps'')"
    using inst sd tb pre by blast
  have c: "eval_metrics ex_utils ex_self [ex_prediction [[''A''], [''B'', ''C'']]]
     = Inl (AttributeError ''obj2vps'')"
    using inst gt k sd tb pre' by blast
  show ?thesis using r a b c by blast
qed

subsection \<open>Candidates\<close>





subsection \<open>Minibatches\<close>



lemma requested_size_eq:
  "(if real_world self then 1
    else case arg of None \<Rightarrow> batch_size self | Some b \<Rightarrow> b) = requested_size self arg"
  by (simp add: requested_size_def)










subsection \<open>Real-world mode\<close>

lemma makeActions_result:
  "fst (makeActions M sims actions) =
     (if length actions \<le> length sims then None else Some IndexError)"
  by (induction M sims actions rule: makeActions.induct) (auto split: prod.splits)

lemma newEpisodes_result:
  "fst (newEpisodes M sims episodes) =
     (if length episodes \<le> length sims then None else Some IndexError)"
  by (induction M sims episodes rule: newEpisodes.induct) (auto split: prod.splits)

lemma makeActions_length:
  "length actions \<le> length sims \<Longrightarrow> length (snd (makeActions M sims actions)) = length sims"
  by (induction M sims actions rule: makeActions.induct) (auto split: prod.splits)

lemma get_obs_real_world: "real_world self \<Longrightarrow> get_obs M self = Inl (NameError ''passf'')"
  by (simp add: get_obs_def)

lemma next_minibatch_real_world:
  "next_minibatch R self b = Inr self' \<Longrightarrow> real_world self' = real_world self"
  by (auto simp: next_minibatch_def Let_def and_then_eq_Inr split: if_splits prod.splits)

lemma next_minibatch_no_ix:
  "ix self = None \<Longrightarrow> next_minibatch R self b = Inl (AttributeError ''ix'')"
  by (simp add: next_minibatch_def Let_def)

lemma reset_no_ix:
  "ix self = None \<Longrightarrow> fst (reset M R self b) = Inl (AttributeError ''ix'')"
  by (simp add: reset_def next_minibatch_no_ix)

lemma reset_real_world:
  assumes "real_world self"
  shows "\<exists>e. fst (reset M R self b) = Inl e"
proof (cases "next_minibatch R self b")
  case (Inl e)
  then show ?thesis by (simp add: reset_def)
next
  case (Inr self1)
  then have rw: "real_world self1" using assms next_minibatch_real_world by blast
  then have "\<And>sims. get_obs M (self1 \<lparr> env := sims \<rparr>) = Inl (NameError ''passf'')"
    by (simp add: get_obs_def)
  then show ?thesis
    using Inr
    by (auto simp: reset_def Let_def split: sum.splits prod.splits option.splits)
qed

lemma step_real_world:
  assumes "real_world self"
  shows "\<exists>e. fst (step M self actions) = Inl e"
    and "length actions \<le> length (env self) \<Longrightarrow>
           fst (step M self actions) = Inl (NameError ''passf'')"
proof -
  obtain r sims where ma: "makeActions M (env self) actions = (r, sims)"
    by (cases "makeActions M (env self) actions") auto
  have obs: "get_obs M (self \<lparr> env := sims \<rparr>) = Inl (NameError ''passf'')"
    using assms by (simp add: get_obs_def)
  show "\<exists>e. fst (step M self actions) = Inl e"
    using ma obs by (cases r) (simp_all add: step_def)
  assume "length actions \<le> length (env self)"
  then have "r = None" using makeActions_result[of M "env self" actions] ma by simp
  then show "fst (step M self actions) = Inl (NameError ''passf'')"
    using ma obs by (simp add: step_def)
qed

lemma reset_epoch_real_world: "real_world (reset_epoch R self flag) = real_world self"
  by (simp add: reset_epoch_def split: prod.splits)

text \<open>
  C1. The code does not do what the claim says. An object constructed in real-world mode
  has no shortest-path tables, but \<^verbatim>\<open>reset\<close> raises \<^verbatim>\<open>AttributeError\<close> (\<^verbatim>\<open>self.ix\<close> is assigned
  only outside real-world mode), also after \<^verbatim>\<open>reset_epoch\<close> has assigned \<^verbatim>\<open>self.ix\<close> it still
  raises, and \<^verbatim>\<open>step\<close> always raises: \<^verbatim>\<open>NameError\<close> at the statement \<^verbatim>\<open>passf\<close> of \<^verbatim>\<open>_get_obs\<close>
  whenever there are no more actions than simulators.
\<close>

theorem real_world_operations_fail:
  assumes "arg_real_world a"
  shows "\<exists>self.
           init M R F g0 a = Inr self \<and> real_world self \<and>
           shortest_paths self = None \<and> shortest_distances self = None \<and>
           fst (reset M R self b) = Inl (AttributeError ''ix'') \<and>
           (\<exists>e. fst (reset M R (reset_epoch R self flag) b) = Inl e) \<and>
           (\<exists>e. fst (step M self actions) = Inl e) \<and>
           (int (length actions) \<le> arg_batch_size a \<longrightarrow>
              fst (step M self actions) = Inl (NameError ''passf''))"
proof -
  let ?self = "\<lparr> env = replicate (nat (arg_batch_size a)) (new_sim M),
           data = arg_instr_data a,
           scans = set (map ep_scan (arg_instr_data a)),
           connectivity_dir = arg_connectivity_dir a,
           batch_size = arg_batch_size a,
           angle_feat_size = arg_angle_feat_size a,
           name = arg_name a,
           real_world = True,
           server_path = arg_server_path a,
           gt_trajs = None, seed = None, ix = None,
           shortest_paths = None, shortest_distances = None,
           candidates_dict = None, batch = None, obj2vps = None,
           rng = g0 \<rparr>"
  have i: "init M R F g0 a = Inr ?self" using assms by (rule init_real_world)
  have rw: "real_world ?self" by simp
  have r1: "fst (reset M R ?self b) = Inl (AttributeError ''ix'')"
    by (rule reset_no_ix) simp
  have "real_world (reset_epoch R ?self flag)" by (simp add: reset_epoch_real_world)
  then have r2: "\<exists>e. fst (reset M R (reset_epoch R ?self flag) b) = Inl e"
    by (rule reset_real_world)
  have s1: "\<exists>e. fst (step M ?self actions) = Inl e" using rw by (rule step_real_world(1))
  have s2: "fst (step M ?self actions) = Inl (NameError ''passf'')"
    if "int (length actions) \<le> arg_batch_size a"
  proof -
    from that have "length actions \<le> length (env ?self)" by simp
    with rw show ?thesis by (rule step_real_world(2))
  qed
  show ?thesis
    using i r1 r2 s1 s2 by (intro exI[of _ ?self]) simp
qed

theorem real_world_operations_fail_witness:
  "arg_real_world (ex_args [ex_episode ''1''] 1 True) \<and>
   init ex_sim ex_random ex_files () (ex_args [ex_episode ''1''] 1 True) = Inr ex_real_world \<and>
   fst (reset ex_sim ex_random ex_real_world None) = Inl (AttributeError ''ix'') \<and>
   fst (step ex_sim ex_real_world []) = Inl (NameError ''passf'')"
proof -
  have rw: "arg_real_world (ex_args [ex_episode ''1''] 1 True)" by (simp add: ex_args_def)
  have len: "int (length ([] :: (int \<times> real \<times> real) list))
      \<le> arg_batch_size (ex_args [ex_episode ''1''] 1 True)"
    by (simp add: ex_args_def)
  from real_world_operations_fail[OF rw, of ex_sim ex_random ex_files "()" None False "[]"]
    ex_init_real_world len
  have "fst (reset ex_sim ex_random ex_real_world None) = Inl (AttributeError ''ix'') \<and>
   fst (step ex_sim ex_real_world []) = Inl (NameError ''passf'')"
    by auto
  with rw ex_init_real_world show ?thesis by blast
qed

end
